theory Spec2Isabelle
  imports Complex_Main
begin

section \<open>JavaScript values\<close>

text \<open>
  A JavaScript number is an IEEE double: a finite value (always a rational), one of the
  two infinities, or NaN. Only comparisons with 1 and the integrality test are used by
  the worker, and both depend on the value alone, so a finite number is kept as the
  rational it denotes. A string is a list of characters, one \<^typ>\<open>char\<close> per code unit.
\<close>

datatype jsnum = Finite rat | PosInfinity | NegInfinity | NaN

datatype jsval =
    Undefined
  | Null
  | Bool bool
  | Number jsnum
  | Str string
  | Arr "jsval list"
  | Obj "(string \<times> jsval) list"

text \<open>\<^verbatim>\<open>isNaN(x)\<close>, \<^verbatim>\<open>x < 1\<close>, \<^verbatim>\<open>x >= 1\<close> and \<^verbatim>\<open>Number.isInteger(x)\<close> on numbers.\<close>

fun isNaN :: "jsnum \<Rightarrow> bool" where
  "isNaN NaN = True"
| "isNaN _ = False"

fun less_than_one :: "jsnum \<Rightarrow> bool" where
  "less_than_one (Finite q) = (q < 1)"
| "less_than_one NegInfinity = True"
| "less_than_one PosInfinity = False"
| "less_than_one NaN = False"

fun at_least_one :: "jsnum \<Rightarrow> bool" where
  "at_least_one (Finite q) = (1 \<le> q)"
| "at_least_one PosInfinity = True"
| "at_least_one NegInfinity = False"
| "at_least_one NaN = False"

fun isInteger :: "jsnum \<Rightarrow> bool" where
  "isInteger (Finite q) = (of_int \<lfloor>q\<rfloor> = q)"
| "isInteger _ = False"

text \<open>
  Reading a property: an object gives the stored value or \<^verbatim>\<open>undefined\<close>; reading from
  \<^verbatim>\<open>undefined\<close> or \<^verbatim>\<open>null\<close> throws a TypeError; any other value has none of the
  property names the worker reads, so the result is \<^verbatim>\<open>undefined\<close>. An object is an
  association list read with \<^const>\<open>map_of\<close>.
\<close>

definition obj_get :: "(string \<times> jsval) list \<Rightarrow> string \<Rightarrow> jsval" where
  "obj_get kv k = (case map_of kv k of Some v \<Rightarrow> v | None \<Rightarrow> Undefined)"

fun get_prop :: "jsval \<Rightarrow> string \<Rightarrow> string + jsval" where
  "get_prop (Obj kv) k = Inr (obj_get kv k)"
| "get_prop Undefined k = Inl (''Cannot read properties of undefined (reading '' @ k @ '')'')"
| "get_prop Null k = Inl (''Cannot read properties of null (reading '' @ k @ '')'')"
| "get_prop _ k = Inr Undefined"

text \<open>
  \<^verbatim>\<open>String.prototype.trim\<close>: white space and line terminators are removed at both ends.
  In the range of \<^typ>\<open>char\<close> these are the code units 9 to 13, 32 and 160.
\<close>

definition is_space :: "char \<Rightarrow> bool" where
  "is_space c = (of_char c \<in> set [9, 10, 11, 12, 13, 32, 160 :: nat])"

definition trim :: "string \<Rightarrow> string" where
  "trim s = rev (dropWhile is_space (rev (dropWhile is_space s)))"

section \<open>The request guard of the POST handler\<close>

text \<open>
  \<^verbatim>\<open>const { destination, durationDays } = payload || {}\<close>: a falsy payload is
  replaced by the empty object before the two properties are read.
\<close>

fun falsy :: "jsval \<Rightarrow> bool" where
  "falsy Undefined = True"
| "falsy Null = True"
| "falsy (Bool b) = (\<not> b)"
| "falsy (Number n) = (n = NaN \<or> n = Finite 0)"
| "falsy (Str s) = (s = [])"
| "falsy _ = False"

definition or_empty :: "jsval \<Rightarrow> jsval" where
  "or_empty payload = (if falsy payload then Obj [] else payload)"

definition own :: "jsval \<Rightarrow> string \<Rightarrow> jsval" where
  "own v k = (case get_prop v k of Inr x \<Rightarrow> x | Inl _ \<Rightarrow> Undefined)"

text \<open>
  \<^verbatim>\<open>typeof destination !== 'string' || !destination.trim() ||
  typeof durationDays !== 'number' || isNaN(durationDays) || durationDays < 1\<close>
\<close>

definition invalid_input :: "jsval \<Rightarrow> jsval \<Rightarrow> bool" where
  "invalid_input destination durationDays =
     ((case destination of Str s \<Rightarrow> trim s = [] | _ \<Rightarrow> True) \<or>
      (case durationDays of Number n \<Rightarrow> isNaN n \<or> less_than_one n | _ \<Rightarrow> True))"

section \<open>The itinerary schema\<close>

text \<open>
  The three schemas of the worker, read as predicates on the parsed value.
  \<^verbatim>\<open>z.string().min(1)\<close> accepts a string of at least one code unit, \<^verbatim>\<open>z.enum\<close> a string
  that is one of the listed ones, \<^verbatim>\<open>z.number().int().min(1)\<close> a number that is not NaN, is
  an integer and is at least 1, \<^verbatim>\<open>z.array(s).length(3)\<close> an array of exactly three values
  accepted by \<^verbatim>\<open>s\<close>, and \<^verbatim>\<open>z.object\<close> an object (not an array, not \<^verbatim>\<open>null\<close>) whose listed
  keys are accepted, a missing key being read as \<^verbatim>\<open>undefined\<close>; other keys are ignored.
\<close>

definition string_min1 :: "jsval \<Rightarrow> bool" where
  "string_min1 v = (case v of Str s \<Rightarrow> 1 \<le> length s | _ \<Rightarrow> False)"

definition time_enum :: "string list" where
  "time_enum = [''Morning'', ''Afternoon'', ''Evening'']"

definition enum_time :: "jsval \<Rightarrow> bool" where
  "enum_time v = (case v of Str s \<Rightarrow> s \<in> set time_enum | _ \<Rightarrow> False)"

definition number_int_min1 :: "jsval \<Rightarrow> bool" where
  "number_int_min1 v =
     (case v of Number n \<Rightarrow> \<not> isNaN n \<and> isInteger n \<and> at_least_one n | _ \<Rightarrow> False)"

definition activitySchema :: "jsval \<Rightarrow> bool" where
  "activitySchema v =
     (case v of
        Obj kv \<Rightarrow>
          enum_time (obj_get kv ''time'') \<and>
          string_min1 (obj_get kv ''description'') \<and>
          string_min1 (obj_get kv ''location'')
      | _ \<Rightarrow> False)"

definition daySchema :: "jsval \<Rightarrow> bool" where
  "daySchema v =
     (case v of
        Obj kv \<Rightarrow>
          number_int_min1 (obj_get kv ''day'') \<and>
          string_min1 (obj_get kv ''theme'') \<and>
          (case obj_get kv ''activities'' of
             Arr xs \<Rightarrow> list_all activitySchema xs \<and> length xs = 3
           | _ \<Rightarrow> False)
      | _ \<Rightarrow> False)"

definition itinerarySchema :: "jsval \<Rightarrow> bool" where
  "itinerarySchema v =
     (case v of
        Obj kv \<Rightarrow>
          string_min1 (obj_get kv ''destination'') \<and>
          number_int_min1 (obj_get kv ''durationDays'') \<and>
          (case obj_get kv ''itinerary'' of
             Arr ds \<Rightarrow> list_all daySchema ds
           | _ \<Rightarrow> False)
      | _ \<Rightarrow> False)"

section \<open>Documents, the store and the effects of a run\<close>

text \<open>
  A field of a stored document is one of the store's typed wrappers around a JavaScript
  value. The fields of a request are an association list, in the order the worker
  writes them; a stored document is a map from field names.
\<close>

datatype fsvalue =
    StringValue jsval
  | IntegerValue jsval
  | TimestampValue string
  | NullValue
  | ArrayValue "fsvalue list"
  | MapValue "(string \<times> fsvalue) list"

type_synonym fields = "(string \<times> fsvalue) list"
type_synonym document = "string \<rightharpoonup> fsvalue"
type_synonym store = "string \<rightharpoonup> document"

text \<open>
  The outcome of one \<^verbatim>\<open>fetch\<close> call: the call throws, or it returns a response with
  its \<^verbatim>\<open>ok\<close> flag and its body text.
\<close>

datatype fetch_result = NetworkError string | HttpResponse bool string

text \<open>
  Modelled from the spec: the document store is outside the repository, and the worker
  sends it PATCH requests without an update mask. The model takes such a request the way
  section 4.2 of the specification describes a patch: the fields it names are overwritten
  and the other fields of an existing document stay; a document that does not exist yet
  is created with the fields sent. The write takes place exactly when the store answers
  with an \<^verbatim>\<open>ok\<close> response. The statements below rely on the other fields staying only
  for the itinerary of a document after a failed run.
\<close>

definition patch_document :: "store \<Rightarrow> string \<Rightarrow> fields \<Rightarrow> store" where
  "patch_document S jobId fs =
     S(jobId \<mapsto> (case S jobId of None \<Rightarrow> map_of fs | Some d \<Rightarrow> d ++ map_of fs))"

definition fetch_patch :: "fetch_result \<Rightarrow> string \<Rightarrow> fields \<Rightarrow> store \<Rightarrow> store" where
  "fetch_patch r jobId fs S =
     (case r of HttpResponse True _ \<Rightarrow> patch_document S jobId fs | _ \<Rightarrow> S)"

text \<open>The calls a run makes to the outside, in the order it makes them.\<close>

datatype event =
    ImportKey string string
  | Sign string string
  | TokenPost string string
  | ChatCompletion string jsval jsval
  | Patch string fields
  | WaitUntil string jsval jsval
  | Respond nat

record world =
  docs :: store
  trace :: "event list"

definition emit :: "event list \<Rightarrow> world \<Rightarrow> world" where
  "emit evs w = w\<lparr>trace := trace w @ evs\<rparr>"

section \<open>The token minter\<close>

record jwt_header =
  alg_header :: string
  typ_header :: string

record jwt_claims =
  iss :: "string option"
  scope :: string
  aud :: string
  iat :: int
  exp_claim :: int

text \<open>
  Functions of the platform that the worker calls and that are not part of the
  repository: \<^verbatim>\<open>JSON.parse\<close> (the error message on the left), the text of a schema
  error, and the base64url text of the serialised header and claims.
\<close>

record builtins =
  JSON_parse :: "string \<Rightarrow> string + jsval"
  zod_message :: "jsval \<Rightarrow> string"
  base64url_header :: "jwt_header \<Rightarrow> string"
  base64url_claims :: "jwt_claims \<Rightarrow> string"

text \<open>
  What one call of the minter meets: the two environment variables, the value of
  \<^verbatim>\<open>Date.now()\<close> in milliseconds, the error of \<^verbatim>\<open>importKey\<close> if it throws, the base64url
  text of the signature or the error of \<^verbatim>\<open>sign\<close>, and the answer of the token endpoint.
  The minter reads \<^verbatim>\<open>Date.now()\<close> twice, for \<^verbatim>\<open>iat\<close> and for \<^verbatim>\<open>exp\<close>, in one object
  literal with nothing awaited in between. The worker runs on Cloudflare Workers, whose
  clock does not advance during synchronous execution, so both readings are the one value
  \<^verbatim>\<open>Date_now\<close>.
\<close>

record mint_env =
  FIREBASE_PRIVATE_KEY :: "string option"
  FIREBASE_CLIENT_EMAIL :: "string option"
  Date_now :: int
  importKey_error :: "string option"
  sign_result :: "string + string"
  token_response :: fetch_result

definition jwtHeader :: jwt_header where
  "jwtHeader = \<lparr>alg_header = ''RS256'', typ_header = ''JWT''\<rparr>"

definition jwtPayload :: "mint_env \<Rightarrow> jwt_claims" where
  "jwtPayload E =
     \<lparr>iss = FIREBASE_CLIENT_EMAIL E,
      scope = ''https://www.googleapis.com/auth/datastore'',
      aud = ''https://oauth2.googleapis.com/token'',
      iat = Date_now E div 1000,
      exp_claim = Date_now E div 1000 + 3600\<rparr>"

definition signatureInput :: "builtins \<Rightarrow> mint_env \<Rightarrow> string" where
  "signatureInput B E = base64url_header B jwtHeader @ ''.'' @ base64url_claims B (jwtPayload E)"

definition token_url :: string where
  "token_url = ''https://oauth2.googleapis.com/token''"

definition token_body :: "string \<Rightarrow> string" where
  "token_body jwt = ''grant_type=urn:ietf:params:oauth:grant-type:jwt-bearer&assertion='' @ jwt"

text \<open>
  \<^verbatim>\<open>getFirebaseAuthToken\<close>: the events of the call and either the error it throws (every
  error caught is thrown again) or the \<^verbatim>\<open>access_token\<close> property of the answer, whose
  body \<^verbatim>\<open>response.json()\<close> parses. A missing private key makes \<^verbatim>\<open>privateKey.split\<close> throw
  before the key is imported.
\<close>

definition getFirebaseAuthToken :: "builtins \<Rightarrow> mint_env \<Rightarrow> event list \<times> (string + jsval)" where
  "getFirebaseAuthToken B E =
     (case FIREBASE_PRIVATE_KEY E of
        None \<Rightarrow> ([], Inl ''Cannot read properties of undefined (reading split)'')
      | Some privateKey \<Rightarrow>
          (let e1 = [ImportKey ''RSASSA-PKCS1-v1_5'' ''SHA-256''] in
           case importKey_error E of
             Some err \<Rightarrow> (e1, Inl err)
           | None \<Rightarrow>
               (let e2 = e1 @ [Sign ''RSASSA-PKCS1-v1_5'' (signatureInput B E)] in
                case sign_result E of
                  Inl err \<Rightarrow> (e2, Inl err)
                | Inr signature \<Rightarrow>
                    (let jwt = signatureInput B E @ ''.'' @ signature;
                         e3 = e2 @ [TokenPost token_url (token_body jwt)]
                     in case token_response E of
                          NetworkError err \<Rightarrow> (e3, Inl err)
                        | HttpResponse ok text \<Rightarrow>
                            if \<not> ok then (e3, Inl (''Failed to get Firebase token: '' @ text))
                            else (case JSON_parse B text of
                                    Inl err \<Rightarrow> (e3, Inl err)
                                  | Inr data \<Rightarrow> (e3, get_prop data ''access_token''))))))"

section \<open>The generation run\<close>

text \<open>
  The answer of the completion API, as far as the worker reads it:
  \<^verbatim>\<open>completion.choices?.[0]?.message?.content\<close>. Each level may be missing; a content
  that is \<^verbatim>\<open>null\<close> or missing is \<^const>\<open>None\<close>.
\<close>

record chat_message =
  content :: "string option"

record choice =
  message :: "chat_message option"

record completion =
  choices :: "choice list option"

definition content_of :: "completion \<Rightarrow> string option" where
  "content_of c =
     (case choices c of
        None \<Rightarrow> None
      | Some [] \<Rightarrow> None
      | Some (ch # _) \<Rightarrow> (case message ch of None \<Rightarrow> None | Some m \<Rightarrow> content m))"

text \<open>\<^verbatim>\<open>completion.choices?.[0]?.message?.content ?? '{}'\<close>\<close>

definition completion_text :: "completion \<Rightarrow> string" where
  "completion_text c = (case content_of c of None \<Rightarrow> ''{}'' | Some t \<Rightarrow> t)"

text \<open>
  A call of \<^verbatim>\<open>openai.chat.completions.create\<close> ends with an error that carries an HTTP
  status and a message, or returns a completion. \<^verbatim>\<open>provider E k\<close> is the outcome of the
  call numbered \<^verbatim>\<open>k\<close> of a run, counted from 0: the outcome of the whole call, after
  whatever the client library does inside it (the worker builds the client with its
  defaults, and the library's own retrying of a request is not part of the repository).
  The rest of the record is what the two terminal writes meet: the
  minter's environment, the time written into \<^verbatim>\<open>completedAt\<close> and the answer of the
  store, once for the completed write and once for the failed write.
\<close>

datatype provider_result = ProviderError nat string | ProviderReturns completion

record run_env =
  provider :: "nat \<Rightarrow> provider_result"
  mint_completed :: mint_env
  now_completed :: string
  patch_completed :: fetch_result
  mint_failed :: mint_env
  now_failed :: string
  patch_failed :: fetch_result

text \<open>\<^verbatim>\<open>xs.map(f)\<close> where \<^verbatim>\<open>f\<close> may throw, and where \<^verbatim>\<open>xs\<close> may not be an array.\<close>

fun map_throwing :: "('a \<Rightarrow> string + 'b) \<Rightarrow> 'a list \<Rightarrow> string + 'b list" where
  "map_throwing f [] = Inr []"
| "map_throwing f (x # xs) =
     (case f x of
        Inl e \<Rightarrow> Inl e
      | Inr y \<Rightarrow> (case map_throwing f xs of Inl e \<Rightarrow> Inl e | Inr ys \<Rightarrow> Inr (y # ys)))"

definition array_map :: "(jsval \<Rightarrow> string + 'b) \<Rightarrow> jsval \<Rightarrow> string + 'b list" where
  "array_map f v =
     (case v of
        Arr xs \<Rightarrow> map_throwing f xs
      | Undefined \<Rightarrow> Inl ''Cannot read properties of undefined (reading map)''
      | Null \<Rightarrow> Inl ''Cannot read properties of null (reading map)''
      | _ \<Rightarrow> Inl ''map is not a function'')"

definition encode_activity :: "jsval \<Rightarrow> string + fsvalue" where
  "encode_activity activity =
     (case get_prop activity ''time'' of
        Inl e \<Rightarrow> Inl e
      | Inr t \<Rightarrow>
          (case get_prop activity ''description'' of
             Inl e \<Rightarrow> Inl e
           | Inr d \<Rightarrow>
               (case get_prop activity ''location'' of
                  Inl e \<Rightarrow> Inl e
                | Inr l \<Rightarrow>
                    Inr (MapValue
                      [(''time'', StringValue t),
                       (''description'', StringValue d),
                       (''location'', StringValue l)]))))"

definition encode_day :: "jsval \<Rightarrow> string + fsvalue" where
  "encode_day day =
     (case get_prop day ''day'' of
        Inl e \<Rightarrow> Inl e
      | Inr n \<Rightarrow>
          (case get_prop day ''theme'' of
             Inl e \<Rightarrow> Inl e
           | Inr th \<Rightarrow>
               (case get_prop day ''activities'' of
                  Inl e \<Rightarrow> Inl e
                | Inr acts \<Rightarrow>
                    (case array_map encode_activity acts of
                       Inl e \<Rightarrow> Inl e
                     | Inr vs \<Rightarrow>
                         Inr (MapValue
                           [(''day'', IntegerValue n),
                            (''theme'', StringValue th),
                            (''activities'', ArrayValue vs)])))))"

definition updatePayload :: "jsval \<Rightarrow> string \<Rightarrow> string + fields" where
  "updatePayload itineraryObj now =
     (case get_prop itineraryObj ''itinerary'' of
        Inl e \<Rightarrow> Inl e
      | Inr it \<Rightarrow>
          (case array_map encode_day it of
             Inl e \<Rightarrow> Inl e
           | Inr days \<Rightarrow>
               Inr [(''status'', StringValue (Str ''completed'')),
                    (''itinerary'', ArrayValue days),
                    (''completedAt'', TimestampValue now),
                    (''error'', NullValue)]))"

definition errorPayload :: "string \<Rightarrow> string \<Rightarrow> fields" where
  "errorPayload msg now =
     [(''status'', StringValue (Str ''failed'')),
      (''completedAt'', TimestampValue now),
      (''error'', StringValue (Str msg))]"

text \<open>
  The \<^verbatim>\<open>try\<close> block of \<^verbatim>\<open>generateItinerary\<close>: one call of the completion client, the parse, the
  schema check, the token, the payload and the PATCH. The result is the message of the
  error thrown, or nothing.
\<close>

definition try_generate ::
  "builtins \<Rightarrow> run_env \<Rightarrow> string \<Rightarrow> jsval \<Rightarrow> jsval \<Rightarrow> world \<Rightarrow> (string + unit) \<times> world" where
  "try_generate B E jobId destination durationDays w =
     (let w1 = emit [ChatCompletion ''gpt-4o'' destination durationDays] w in
      case provider E 0 of
        ProviderError code msg \<Rightarrow> (Inl msg, w1)
      | ProviderReturns c \<Rightarrow>
          (case JSON_parse B (completion_text c) of
             Inl m \<Rightarrow> (Inl (''Invalid JSON returned by OpenAI: '' @ m), w1)
           | Inr itineraryObj \<Rightarrow>
               if \<not> itinerarySchema itineraryObj
               then (Inl (''Invalid itinerary structure: '' @ zod_message B itineraryObj), w1)
               else
                 (case getFirebaseAuthToken B (mint_completed E) of
                    (evs, Inl e) \<Rightarrow> (Inl e, emit evs w1)
                  | (evs, Inr token) \<Rightarrow>
                      (case updatePayload itineraryObj (now_completed E) of
                         Inl e \<Rightarrow> (Inl e, emit evs w1)
                       | Inr fs \<Rightarrow>
                           (let w2 = emit (evs @ [Patch jobId fs])
                                       (w1\<lparr>docs := fetch_patch (patch_completed E) jobId fs (docs w1)\<rparr>)
                            in case patch_completed E of
                                 NetworkError e \<Rightarrow> (Inl e, w2)
                               | HttpResponse ok body \<Rightarrow>
                                   if \<not> ok then (Inl (''Firestore update failed: '' @ body), w2)
                                   else (Inr (), w2))))))"

text \<open>
  The \<^verbatim>\<open>try\<close> block inside the \<^verbatim>\<open>catch\<close>: the token and the PATCH that records the
  failure. A response that is not \<^verbatim>\<open>ok\<close> is only logged.
\<close>

definition report_failure ::
  "builtins \<Rightarrow> run_env \<Rightarrow> string \<Rightarrow> string \<Rightarrow> world \<Rightarrow> (string + unit) \<times> world" where
  "report_failure B E jobId msg w =
     (case getFirebaseAuthToken B (mint_failed E) of
        (evs, Inl e) \<Rightarrow> (Inl e, emit evs w)
      | (evs, Inr token) \<Rightarrow>
          (let fs = errorPayload msg (now_failed E);
               w' = emit (evs @ [Patch jobId fs])
                      (w\<lparr>docs := fetch_patch (patch_failed E) jobId fs (docs w)\<rparr>)
           in case patch_failed E of
                NetworkError e \<Rightarrow> (Inl e, w')
              | HttpResponse ok body \<Rightarrow> (Inr (), w')))"

text \<open>
  \<^verbatim>\<open>generateItinerary\<close>: the outer \<^verbatim>\<open>catch\<close> hands the message of any error of the
  \<^verbatim>\<open>try\<close> block to the failure report, and the inner \<^verbatim>\<open>catch\<close> drops what the report
  throws. The first component is the error with which the call itself would end.
\<close>

definition generateItinerary ::
  "builtins \<Rightarrow> run_env \<Rightarrow> string \<Rightarrow> jsval \<Rightarrow> jsval \<Rightarrow> world \<Rightarrow> (string + unit) \<times> world" where
  "generateItinerary B E jobId destination durationDays w =
     (case try_generate B E jobId destination durationDays w of
        (Inr u, w1) \<Rightarrow> (Inr (), w1)
      | (Inl msg, w1) \<Rightarrow>
          (case report_failure B E jobId msg w1 of
             (Inr u, w2) \<Rightarrow> (Inr (), w2)
           | (Inl errorUpdateErr, w2) \<Rightarrow> (Inr (), w2)))"

section \<open>The POST handler\<close>

record post_env =
  request_json :: "string + jsval"
  randomUUID :: string
  mint_create :: mint_env
  now_created :: string
  patch_create :: fetch_result

record http_response =
  resp_status :: nat
  resp_body :: jsval

definition json_error :: "nat \<Rightarrow> string \<Rightarrow> http_response" where
  "json_error code msg = \<lparr>resp_status = code, resp_body = Obj [(''error'', Str msg)]\<rparr>"

definition createPayload :: "jsval \<Rightarrow> jsval \<Rightarrow> string \<Rightarrow> fields" where
  "createPayload destination durationDays now =
     [(''status'', StringValue (Str ''processing'')),
      (''destination'', StringValue destination),
      (''durationDays'', IntegerValue durationDays),
      (''createdAt'', TimestampValue now),
      (''completedAt'', NullValue),
      (''itinerary'', ArrayValue []),
      (''error'', NullValue)]"

text \<open>
  The POST branch of \<^verbatim>\<open>fetch\<close>: the response, the arguments of the background call
  handed to \<^verbatim>\<open>ctx.waitUntil\<close> if there is one, and the world after the handler.
\<close>

definition fetch_POST ::
  "builtins \<Rightarrow> post_env \<Rightarrow> world \<Rightarrow> http_response \<times> (string \<times> jsval \<times> jsval) option \<times> world" where
  "fetch_POST B E w =
     (case request_json E of
        Inl err \<Rightarrow> (json_error 400 ''Invalid JSON body'', None, emit [Respond 400] w)
      | Inr payload \<Rightarrow>
          (let destination = own (or_empty payload) ''destination'';
               durationDays = own (or_empty payload) ''durationDays''
           in if invalid_input destination durationDays
              then (json_error 400
                      ''Invalid input. Expect { destination: string, durationDays: integer >= 1 }'',
                    None, emit [Respond 400] w)
              else
                (let jobId = randomUUID E in
                 case getFirebaseAuthToken B (mint_create E) of
                   (evs, Inl err) \<Rightarrow>
                     (json_error 500 ''Failed to initiate job'', None, emit (evs @ [Respond 500]) w)
                 | (evs, Inr token) \<Rightarrow>
                     (let fs = createPayload destination durationDays (now_created E);
                          w1 = emit (evs @ [Patch jobId fs])
                                 (w\<lparr>docs := fetch_patch (patch_create E) jobId fs (docs w)\<rparr>);
                          failed = (json_error 500 ''Failed to initiate job'', None,
                                    emit [Respond 500] w1)
                      in case patch_create E of
                           NetworkError err \<Rightarrow> failed
                         | HttpResponse ok body \<Rightarrow>
                             if \<not> ok then failed
                             else
                               (\<lparr>resp_status = 202, resp_body = Obj [(''jobId'', Str jobId)]\<rparr>,
                                Some (jobId, destination, durationDays),
                                emit [WaitUntil jobId destination durationDays, Respond 202] w1)))))"

text \<open>A request followed by the background run it starts, if it starts one.\<close>

definition submit_and_run ::
  "builtins \<Rightarrow> post_env \<Rightarrow> run_env \<Rightarrow> world \<Rightarrow> http_response \<times> world" where
  "submit_and_run B PE RE w =
     (case fetch_POST B PE w of
        (r, None, w1) \<Rightarrow> (r, w1)
      | (r, Some (jobId, destination, durationDays), w1) \<Rightarrow>
          (r, snd (generateItinerary B RE jobId destination durationDays w1)))"

text \<open>Requests served one after the other, each with the run it starts.\<close>

fun serve :: "builtins \<Rightarrow> (post_env \<times> run_env) list \<Rightarrow> world \<Rightarrow> world" where
  "serve B [] w = w"
| "serve B ((PE, RE) # rs) w = serve B rs (snd (submit_and_run B PE RE w))"

section \<open>Properties of job documents\<close>

text \<open>The document of a job (without fields when the store has none) and its status.\<close>

definition job_doc :: "world \<Rightarrow> string \<Rightarrow> document" where
  "job_doc w jobId = (case docs w jobId of None \<Rightarrow> Map.empty | Some d \<Rightarrow> d)"

definition has_status :: "document \<Rightarrow> string \<Rightarrow> bool" where
  "has_status d s = (d ''status'' = Some (StringValue (Str s)))"

definition itinerary_nonempty :: "document \<Rightarrow> bool" where
  "itinerary_nonempty d = (case d ''itinerary'' of Some (ArrayValue (x # xs)) \<Rightarrow> True | _ \<Rightarrow> False)"

definition error_nonnull :: "document \<Rightarrow> bool" where
  "error_nonnull d = (case d ''error'' of None \<Rightarrow> False | Some NullValue \<Rightarrow> False | Some _ \<Rightarrow> True)"

text \<open>
  A write goes through when the minter returns a token and the store answers with an
  \<^verbatim>\<open>ok\<close> response.
\<close>

definition write_goes_through :: "builtins \<Rightarrow> mint_env \<Rightarrow> fetch_result \<Rightarrow> bool" where
  "write_goes_through B M r =
     ((case snd (getFirebaseAuthToken B M) of Inr _ \<Rightarrow> True | Inl _ \<Rightarrow> False) \<and>
      (case r of HttpResponse ok _ \<Rightarrow> ok | NetworkError _ \<Rightarrow> False))"

text \<open>The activities of a stored day and the time of a stored activity.\<close>

definition day_activities :: "fsvalue \<Rightarrow> fsvalue list option" where
  "day_activities v =
     (case v of
        MapValue fs \<Rightarrow> (case map_of fs ''activities'' of Some (ArrayValue as) \<Rightarrow> Some as | _ \<Rightarrow> None)
      | _ \<Rightarrow> None)"

definition activity_time :: "fsvalue \<Rightarrow> string option" where
  "activity_time v =
     (case v of
        MapValue fs \<Rightarrow> (case map_of fs ''time'' of Some (StringValue (Str t)) \<Rightarrow> Some t | _ \<Rightarrow> None)
      | _ \<Rightarrow> None)"

text \<open>
  A day whose three activities each carry a time of the enumeration, and a day whose
  three activities carry the three times of the enumeration, each once.
\<close>

definition time_in_enum :: "fsvalue \<Rightarrow> bool" where
  "time_in_enum a = (case activity_time a of Some t \<Rightarrow> t \<in> set time_enum | None \<Rightarrow> False)"

definition day_entry :: "fsvalue \<Rightarrow> bool" where
  "day_entry v =
     (case day_activities v of Some as \<Rightarrow> length as = 3 \<and> list_all time_in_enum as | None \<Rightarrow> False)"

definition day_all_slots :: "fsvalue \<Rightarrow> bool" where
  "day_all_slots v =
     (case day_activities v of
        Some as \<Rightarrow> length as = 3 \<and> list_all (\<lambda>t. Some t \<in> set (map activity_time as)) time_enum
      | None \<Rightarrow> False)"

text \<open>
  The completed document as the specification describes it, for the requested number of
  days, and the completed document with the length of the itinerary and the
  distinctness of the times left open.
\<close>

definition completed_as_specified :: "document \<Rightarrow> jsval \<Rightarrow> bool" where
  "completed_as_specified d durationDays =
     (has_status d ''completed'' \<and> d ''error'' = Some NullValue \<and>
      (case d ''itinerary'' of
         Some (ArrayValue ds) \<Rightarrow>
           Number (Finite (of_nat (length ds))) = durationDays \<and> list_all day_all_slots ds
       | _ \<Rightarrow> False))"

definition completed_document :: "document \<Rightarrow> bool" where
  "completed_document d =
     (has_status d ''completed'' \<and> d ''error'' = Some NullValue \<and>
      (case d ''itinerary'' of Some (ArrayValue ds) \<Rightarrow> list_all day_entry ds | _ \<Rightarrow> False))"

text \<open>
  The invariant of the specification's data model, and the same with the itinerary of a
  completed job allowed to be empty.
\<close>

definition invariant_as_specified :: "document \<Rightarrow> bool" where
  "invariant_as_specified d =
     ((itinerary_nonempty d = has_status d ''completed'') \<and>
      (error_nonnull d = has_status d ''failed''))"

definition job_invariant :: "document \<Rightarrow> bool" where
  "job_invariant d =
     ((itinerary_nonempty d \<longrightarrow> has_status d ''completed'') \<and>
      (error_nonnull d = has_status d ''failed''))"

definition terminal_fields :: "string set" where
  "terminal_fields = {''status'', ''itinerary'', ''completedAt'', ''error''}"

text \<open>
  A job that ended failed with a message, and what a run whose \<^verbatim>\<open>try\<close> block threw leaves
  behind: the failed document with the itinerary as it was when the failure write goes
  through, and the store as it was otherwise.
\<close>

definition failed_with :: "document \<Rightarrow> string \<Rightarrow> bool" where
  "failed_with d msg = (has_status d ''failed'' \<and> d ''error'' = Some (StringValue (Str msg)))"

definition run_fails_with ::
  "builtins \<Rightarrow> run_env \<Rightarrow> world \<Rightarrow> world \<Rightarrow> string \<Rightarrow> string \<Rightarrow> bool" where
  "run_fails_with B E w w' jobId msg =
     (if write_goes_through B (mint_failed E) (patch_failed E)
      then failed_with (job_doc w' jobId) msg \<and>
           job_doc w' jobId ''itinerary'' = job_doc w jobId ''itinerary''
      else docs w' = docs w)"

definition all_docs :: "(document \<Rightarrow> bool) \<Rightarrow> world \<Rightarrow> bool" where
  "all_docs P w = (\<forall>j d. docs w j = Some d \<longrightarrow> P d)"

definition itinerary_days :: "document \<Rightarrow> fsvalue list" where
  "itinerary_days d = (case d ''itinerary'' of Some (ArrayValue ds) \<Rightarrow> ds | _ \<Rightarrow> [])"

text \<open>
  The events of a trace of one kind: background calls handed to \<^verbatim>\<open>waitUntil\<close>,
  calls of \<^verbatim>\<open>openai.chat.completions.create\<close>, and writes to the store. A terminal write of a job is a write to
  that job's document that names terminal fields only.
\<close>

definition scheduled :: "event list \<Rightarrow> event list" where
  "scheduled evs = filter (\<lambda>e. case e of WaitUntil j d n \<Rightarrow> True | _ \<Rightarrow> False) evs"

definition completion_calls :: "event list \<Rightarrow> event list" where
  "completion_calls evs =
     filter (\<lambda>e. case e of ChatCompletion m d n \<Rightarrow> True | _ \<Rightarrow> False) evs"

definition patches :: "event list \<Rightarrow> event list" where
  "patches evs = filter (\<lambda>e. case e of Patch j fs \<Rightarrow> True | _ \<Rightarrow> False) evs"

definition terminal_patch :: "string \<Rightarrow> event \<Rightarrow> bool" where
  "terminal_patch jobId e =
     (case e of Patch j fs \<Rightarrow> j = jobId \<and> set (map fst fs) \<subseteq> terminal_fields | _ \<Rightarrow> False)"

section \<open>Sample environments\<close>

text \<open>
  Concrete inputs for the examples below. The parser of the examples knows the four
  texts it is given and rejects every other text.
\<close>

definition empty_world :: world where
  "empty_world = \<lparr>docs = Map.empty, trace = []\<rparr>"

definition three_mornings :: jsval where
  "three_mornings =
     Obj [(''destination'', Str ''Rome''),
          (''durationDays'', Number (Finite 2)),
          (''itinerary'',
             Arr [Obj [(''day'', Number (Finite 1)),
                       (''theme'', Str ''Food''),
                       (''activities'',
                          Arr [Obj [(''time'', Str ''Morning''), (''description'', Str ''Market''),
                                    (''location'', Str ''Campo'')],
                               Obj [(''time'', Str ''Morning''), (''description'', Str ''Coffee''),
                                    (''location'', Str ''Bar'')],
                               Obj [(''time'', Str ''Morning''), (''description'', Str ''Walk''),
                                    (''location'', Str ''Tiber'')]])]])]"

definition three_mornings_text :: string where
  \<open>three_mornings_text =
     ''{"destination":"Rome","durationDays":2,"itinerary":[{"day":1,"theme":"Food","activities":['' @
     ''{"time":"Morning","description":"Market","location":"Campo"},'' @
     ''{"time":"Morning","description":"Coffee","location":"Bar"},'' @
     ''{"time":"Morning","description":"Walk","location":"Tiber"}]}]}''\<close>

definition no_days :: jsval where
  "no_days =
     Obj [(''destination'', Str ''Rome''), (''durationDays'', Number (Finite 2)),
          (''itinerary'', Arr [])]"

definition no_days_text :: string where
  \<open>no_days_text = ''{"destination":"Rome","durationDays":2,"itinerary":[]}''\<close>

definition token_text :: string where
  \<open>token_text = ''{"access_token":"t"}''\<close>

definition sample_parse :: "string \<Rightarrow> string + jsval" where
  "sample_parse s =
     (if s = ''{}'' then Inr (Obj [])
      else if s = token_text then Inr (Obj [(''access_token'', Str ''t'')])
      else if s = no_days_text then Inr no_days
      else if s = three_mornings_text then Inr three_mornings
      else Inl ''Unexpected token'')"

definition sample_builtins :: builtins where
  "sample_builtins =
     \<lparr>JSON_parse = sample_parse,
      zod_message = (\<lambda>v. ''Required''),
      base64url_header = (\<lambda>h. ''header''),
      base64url_claims = (\<lambda>c. ''claims'')\<rparr>"

definition sample_mint :: mint_env where
  "sample_mint =
     \<lparr>FIREBASE_PRIVATE_KEY = Some ''key'',
      FIREBASE_CLIENT_EMAIL = Some ''worker@example.iam.gserviceaccount.com'',
      Date_now = 1735689600123,
      importKey_error = None,
      sign_result = Inr ''signature'',
      token_response = HttpResponse True token_text\<rparr>"

definition sample_post :: "jsval \<Rightarrow> post_env" where
  "sample_post payload =
     \<lparr>request_json = Inr payload,
      randomUUID = ''job-1'',
      mint_create = sample_mint,
      now_created = ''2025-01-01T00:00:00.000Z'',
      patch_create = HttpResponse True ''{}''\<rparr>"

definition rome_two_days :: jsval where
  "rome_two_days = Obj [(''destination'', Str ''Rome''), (''durationDays'', Number (Finite 2))]"

definition sample_run :: "(nat \<Rightarrow> provider_result) \<Rightarrow> run_env" where
  "sample_run p =
     \<lparr>provider = p,
      mint_completed = sample_mint,
      now_completed = ''2025-01-01T00:00:05.000Z'',
      patch_completed = HttpResponse True ''{}'',
      mint_failed = sample_mint,
      now_failed = ''2025-01-01T00:00:06.000Z'',
      patch_failed = HttpResponse True ''{}''\<rparr>"

definition answer :: "string option \<Rightarrow> provider_result" where
  "answer t = ProviderReturns \<lparr>choices = Some [\<lparr>message = Some \<lparr>content = t\<rparr>\<rparr>]\<rparr>"

definition paris_fractional :: jsval where
  "paris_fractional =
     Obj [(''destination'', Str ''Paris''), (''durationDays'', Number (Finite (3 / 2)))]"

definition always :: "provider_result \<Rightarrow> nat \<Rightarrow> provider_result" where
  "always r k = r"

definition created_world :: world where
  "created_world = snd (snd (fetch_POST sample_builtins (sample_post rome_two_days) empty_world))"

definition lifecycle :: "(nat \<Rightarrow> provider_result) \<Rightarrow> world" where
  "lifecycle p =
     snd (submit_and_run sample_builtins (sample_post rome_two_days) (sample_run p) empty_world)"

definition run_created :: "run_env \<Rightarrow> world" where
  "run_created E =
     snd (generateItinerary sample_builtins E ''job-1'' (Str ''Rome'') (Number (Finite 2))
            created_world)"

definition refused_post :: post_env where
  "refused_post = (sample_post rome_two_days)\<lparr>patch_create := HttpResponse False ''denied''\<rparr>"

definition prose_run :: run_env where
  "prose_run = sample_run (always (answer (Some ''Sorry, I cannot help'')))"

definition prose_run_unreported :: run_env where
  "prose_run_unreported = prose_run\<lparr>patch_failed := HttpResponse False ''unavailable''\<rparr>"

definition empty_object_run :: run_env where
  "empty_object_run = sample_run (always (answer (Some ''{}'')))"

definition no_content_run :: run_env where
  "no_content_run = sample_run (always (answer None))"

definition three_mornings_run :: run_env where
  "three_mornings_run = sample_run (always (answer (Some three_mornings_text)))"

definition no_days_run :: run_env where
  "no_days_run = sample_run (always (answer (Some no_days_text)))"

definition unsigned_mint :: mint_env where
  "unsigned_mint = sample_mint\<lparr>sign_result := Inl ''The operation failed''\<rparr>"

definition refused_mint :: mint_env where
  "refused_mint = sample_mint\<lparr>token_response := HttpResponse False ''invalid_grant''\<rparr>"

section \<open>Unfolding the model\<close>

lemmas sample_defs = empty_world_def three_mornings_def three_mornings_text_def no_days_def
  no_days_text_def token_text_def sample_parse_def sample_builtins_def
  sample_mint_def sample_post_def sample_run_def answer_def rome_two_days_def
  paris_fractional_def always_def created_world_def lifecycle_def
  run_created_def refused_post_def prose_run_def prose_run_unreported_def empty_object_run_def
  no_content_run_def three_mornings_run_def no_days_run_def unsigned_mint_def refused_mint_def

lemmas model_defs =
  fetch_POST_def submit_and_run_def generateItinerary_def report_failure_def try_generate_def
  getFirebaseAuthToken_def createPayload_def errorPayload_def updatePayload_def encode_day_def
  encode_activity_def array_map_def content_of_def completion_text_def emit_def fetch_patch_def
  patch_document_def itinerarySchema_def daySchema_def activitySchema_def number_int_min1_def
  enum_time_def time_enum_def string_min1_def invalid_input_def own_def or_empty_def trim_def
  is_space_def obj_get_def json_error_def signatureInput_def jwtPayload_def jwtHeader_def
  token_url_def token_body_def Let_def

lemmas doc_defs = job_doc_def has_status_def itinerary_nonempty_def error_nonnull_def
  write_goes_through_def day_activities_def activity_time_def time_in_enum_def day_entry_def
  day_all_slots_def completed_as_specified_def completed_document_def
  invariant_as_specified_def job_invariant_def failed_with_def itinerary_days_def
  scheduled_def completion_calls_def patches_def

section \<open>The request guard\<close>

lemma invalid_input_iff:
  "\<not> invalid_input destination durationDays \<longleftrightarrow>
     (\<exists>s x. destination = Str s \<and> trim s \<noteq> [] \<and> durationDays = Number x \<and>
            \<not> isNaN x \<and> \<not> less_than_one x)"
  by (auto simp: invalid_input_def split: jsval.splits)

lemma fetch_POST_rejected:
  assumes "request_json PE = Inr payload"
    and "invalid_input (own (or_empty payload) ''destination'') (own (or_empty payload) ''durationDays'')"
  shows "fetch_POST B PE w =
           (json_error 400
              ''Invalid input. Expect { destination: string, durationDays: integer >= 1 }'',
            None, emit [Respond 400] w)"
  using assms by (simp add: fetch_POST_def Let_def)

lemma fractional_days_never_400:
  assumes "request_json PE = Inr paris_fractional"
  shows "resp_status (fst (fetch_POST B PE w)) \<noteq> 400"
proof -
  have d: "own (or_empty paris_fractional) ''destination'' = Str ''Paris''"
    and n: "own (or_empty paris_fractional) ''durationDays'' = Number (Finite (3 / 2))"
    by (simp_all add: paris_fractional_def own_def or_empty_def obj_get_def)
  have g: "\<not> invalid_input (Str ''Paris'') (Number (Finite (3 / 2)))"
    by (simp add: invalid_input_def trim_def is_space_def)
  show ?thesis
    using assms d n g
    by (auto simp: fetch_POST_def Let_def json_error_def
          split: sum.splits prod.splits fetch_result.splits)
qed

section \<open>The token minter\<close>



lemma mint_import_error:
  assumes "FIREBASE_PRIVATE_KEY E = Some k" and "importKey_error E = Some err"
  shows "snd (getFirebaseAuthToken B E) = Inl err"
  using assms by (simp add: getFirebaseAuthToken_def Let_def)

lemma mint_sign_error:
  assumes "FIREBASE_PRIVATE_KEY E = Some k" and "importKey_error E = None"
    and "sign_result E = Inl err"
  shows "snd (getFirebaseAuthToken B E) = Inl err"
  using assms by (simp add: getFirebaseAuthToken_def Let_def)


lemma mint_events:
  assumes "getFirebaseAuthToken B M = (evs, r)"
  shows "completion_calls evs = []" and "patches evs = []" and "scheduled evs = []"
  using assms
  by (auto simp: getFirebaseAuthToken_def completion_calls_def patches_def scheduled_def
        Let_def split: option.splits sum.splits fetch_result.splits if_splits)

lemma mint_not_scheduled: "scheduled (fst (getFirebaseAuthToken B M)) = []"
  by (simp add: getFirebaseAuthToken_def scheduled_def Let_def
        split: option.splits sum.splits fetch_result.splits)

section \<open>What the schema requires\<close>

lemma isInteger_iff: "isInteger n \<longleftrightarrow> (\<exists>k. n = Finite (of_int k))"
proof
  assume a: "isInteger n"
  then obtain q where q: "n = Finite q" by (cases n) simp_all
  with a have "\<exists>k. q = of_int k" by simp
  with q show "\<exists>k. n = Finite (of_int k)" by blast
next
  assume "\<exists>k. n = Finite (of_int k)"
  then obtain k where "n = Finite (of_int k)" by blast
  then show "isInteger n" by simp
qed

lemma number_int_min1_iff:
  "number_int_min1 v \<longleftrightarrow> (\<exists>k. v = Number (Finite (of_int k)) \<and> 1 \<le> k)"
proof
  assume a: "number_int_min1 v"
  then obtain n where v: "v = Number n" and n: "isInteger n" "at_least_one n"
    by (auto simp: number_int_min1_def split: jsval.splits)
  from n(1) obtain k where k: "n = Finite (of_int k)" by (auto simp: isInteger_iff)
  with n(2) have "(1::rat) \<le> of_int k" by simp
  then have "1 \<le> k" by linarith
  with v k show "\<exists>k. v = Number (Finite (of_int k)) \<and> 1 \<le> k" by blast
next
  assume "\<exists>k. v = Number (Finite (of_int k)) \<and> 1 \<le> k"
  then show "number_int_min1 v" by (auto simp: number_int_min1_def)
qed

lemma daySchema_requirements:
  assumes "daySchema d"
  shows "\<exists>kv k xs. d = Obj kv \<and> obj_get kv ''day'' = Number (Finite (of_int k)) \<and> 1 \<le> k \<and>
           obj_get kv ''activities'' = Arr xs \<and> length xs = 3 \<and> list_all activitySchema xs"
proof -
  from assms obtain kv xs where d: "d = Obj kv" "number_int_min1 (obj_get kv ''day'')"
      "obj_get kv ''activities'' = Arr xs" "length xs = 3" "list_all activitySchema xs"
    by (auto simp: daySchema_def split: jsval.splits)
  from d(2) obtain k where "obj_get kv ''day'' = Number (Finite (of_int k))" "1 \<le> k"
    by (auto simp: number_int_min1_iff)
  with d show ?thesis by blast
qed

lemma activitySchema_requirements:
  assumes "activitySchema a"
  shows "\<exists>kv t. a = Obj kv \<and> obj_get kv ''time'' = Str t \<and> t \<in> set time_enum"
  using assms by (auto simp: activitySchema_def enum_time_def split: jsval.splits)

section \<open>The encoding of a validated itinerary\<close>

lemma encode_activity_valid:
  assumes "activitySchema a"
  shows "\<exists>v. encode_activity a = Inr v \<and> time_in_enum v"
  using assms
  by (auto simp: activitySchema_def encode_activity_def time_in_enum_def activity_time_def
        enum_time_def split: jsval.splits)

lemma map_throwing_valid:
  assumes "\<And>x. x \<in> set xs \<Longrightarrow> \<exists>y. f x = Inr y \<and> P y"
  shows "\<exists>ys. map_throwing f xs = Inr ys \<and> length ys = length xs \<and> list_all P ys"
  using assms
proof (induction xs)
  case Nil
  then show ?case by simp
next
  case (Cons x xs)
  from Cons.prems obtain y where y: "f x = Inr y" "P y" by auto
  from Cons obtain ys where ys: "map_throwing f xs = Inr ys" "length ys = length xs" "list_all P ys"
    by auto
  from y ys show ?case by simp
qed

lemma encode_day_valid:
  assumes "daySchema d"
  shows "\<exists>v. encode_day d = Inr v \<and> day_entry v"
proof -
  from assms obtain kv xs where d: "d = Obj kv" and acts: "obj_get kv ''activities'' = Arr xs"
    and xs: "list_all activitySchema xs" "length xs = 3"
    by (auto simp: daySchema_def split: jsval.splits)
  have "\<And>x. x \<in> set xs \<Longrightarrow> \<exists>y. encode_activity x = Inr y \<and> time_in_enum y"
    using xs(1) encode_activity_valid by (auto simp: list_all_iff)
  then obtain ys where ys: "map_throwing encode_activity xs = Inr ys" "length ys = length xs"
      "list_all time_in_enum ys"
    using map_throwing_valid[of xs encode_activity time_in_enum] by blast
  show ?thesis
    using d acts ys xs(2)
    by (simp add: encode_day_def array_map_def day_entry_def day_activities_def)
qed

lemma updatePayload_valid:
  assumes "itinerarySchema obj"
  shows "\<exists>ds. updatePayload obj now =
            Inr [(''status'', StringValue (Str ''completed'')),
                 (''itinerary'', ArrayValue ds),
                 (''completedAt'', TimestampValue now),
                 (''error'', NullValue)] \<and> list_all day_entry ds"
proof -
  from assms obtain kv xs where o: "obj = Obj kv" and it: "obj_get kv ''itinerary'' = Arr xs"
    and xs: "list_all daySchema xs"
    by (auto simp: itinerarySchema_def split: jsval.splits)
  have "\<And>x. x \<in> set xs \<Longrightarrow> \<exists>y. encode_day x = Inr y \<and> day_entry y"
    using xs encode_day_valid by (auto simp: list_all_iff)
  then obtain ys where ys: "map_throwing encode_day xs = Inr ys" "list_all day_entry ys"
    using map_throwing_valid[of xs encode_day day_entry] by blast
  show ?thesis
    using o it ys by (simp add: updatePayload_def array_map_def)
qed

lemma updatePayload_keys:
  assumes "updatePayload obj now = Inr fs" and "(k, v) \<in> set fs"
  shows "k \<in> terminal_fields"
  using assms
  by (auto simp: updatePayload_def terminal_fields_def split: sum.splits)

lemma errorPayload_keys: "set (map fst (errorPayload msg now)) \<subseteq> terminal_fields"
  by (simp add: errorPayload_def terminal_fields_def)

section \<open>The two blocks of a run\<close>

lemma content_of_None_iff:
  "content_of c = None \<longleftrightarrow>
     (choices c = None \<or> choices c = Some [] \<or>
      (\<exists>ch cs. choices c = Some (ch # cs) \<and>
         (message ch = None \<or> (\<exists>m. message ch = Some m \<and> content m = None))))"
  by (auto simp: content_of_def split: option.splits list.splits)

lemma try_generate_Inl_docs:
  assumes "try_generate B E j dst n w = (Inl msg, w1)"
  shows "docs w1 = docs w"
  using assms
  by (auto simp: try_generate_def Let_def emit_def fetch_patch_def
        split: provider_result.splits sum.splits if_splits prod.splits fetch_result.splits)

lemma try_generate_Inr:
  assumes "try_generate B E j dst n w = (Inr u, w1)"
  shows "\<exists>c obj fs. provider E 0 = ProviderReturns c \<and>
           JSON_parse B (completion_text c) = Inr obj \<and> itinerarySchema obj \<and>
           updatePayload obj (now_completed E) = Inr fs \<and>
           docs w1 = patch_document (docs w) j fs"
  using assms
  by (auto simp: try_generate_def Let_def emit_def fetch_patch_def
        split: provider_result.splits sum.splits if_splits prod.splits fetch_result.splits)

lemma try_generate_provider_error:
  assumes "provider E 0 = ProviderError code msg"
  shows "try_generate B E j dst n w = (Inl msg, emit [ChatCompletion ''gpt-4o'' dst n] w)"
  using assms by (simp add: try_generate_def Let_def)

lemma try_generate_parse_error:
  assumes "provider E 0 = ProviderReturns c" and "JSON_parse B (completion_text c) = Inl m"
  shows "try_generate B E j dst n w =
           (Inl (''Invalid JSON returned by OpenAI: '' @ m), emit [ChatCompletion ''gpt-4o'' dst n] w)"
  using assms by (simp add: try_generate_def Let_def)

lemma try_generate_schema_error:
  assumes "provider E 0 = ProviderReturns c" and "JSON_parse B (completion_text c) = Inr obj"
    and "\<not> itinerarySchema obj"
  shows "try_generate B E j dst n w =
           (Inl (''Invalid itinerary structure: '' @ zod_message B obj),
            emit [ChatCompletion ''gpt-4o'' dst n] w)"
  using assms by (simp add: try_generate_def Let_def)

lemma try_generate_write_error:
  assumes "provider E 0 = ProviderReturns c" and "JSON_parse B (completion_text c) = Inr obj"
    and "itinerarySchema obj" and "getFirebaseAuthToken B (mint_completed E) = (evs, Inr token)"
    and "patch_completed E = HttpResponse False body"
  shows "fst (try_generate B E j dst n w) = Inl (''Firestore update failed: '' @ body)"
  using assms updatePayload_valid[OF assms(3), of "now_completed E"]
  by (auto simp: try_generate_def Let_def)

lemma report_failure_docs:
  "docs (snd (report_failure B E j msg w)) =
     (if write_goes_through B (mint_failed E) (patch_failed E)
      then patch_document (docs w) j (errorPayload msg (now_failed E)) else docs w)"
  by (auto simp: report_failure_def write_goes_through_def Let_def emit_def fetch_patch_def
        split: sum.splits prod.splits fetch_result.splits)

lemma report_failure_trace:
  assumes "getFirebaseAuthToken B (mint_failed E) = (evs, Inr tok)"
  shows "trace (snd (report_failure B E j msg w)) =
           trace w @ evs @ [Patch j (errorPayload msg (now_failed E))]"
  using assms
  by (auto simp: report_failure_def Let_def emit_def split: fetch_result.splits)

lemma generateItinerary_failure:
  assumes "try_generate B E j dst n w = (Inl msg, w1)"
  shows "generateItinerary B E j dst n w = (Inr (), snd (report_failure B E j msg w1))"
  using assms by (simp add: generateItinerary_def split: prod.splits sum.splits)

lemma generateItinerary_success:
  assumes "try_generate B E j dst n w = (Inr u, w1)"
  shows "generateItinerary B E j dst n w = (Inr (), w1)"
  using assms by (simp add: generateItinerary_def)

lemma try_generate_cases:
  "(\<exists>msg w1. try_generate B E j dst n w = (Inl msg, w1) \<and> docs w1 = docs w) \<or>
   (\<exists>w1 ds. try_generate B E j dst n w = (Inr (), w1) \<and> list_all day_entry ds \<and>
      docs w1 = patch_document (docs w) j
        [(''status'', StringValue (Str ''completed'')),
         (''itinerary'', ArrayValue ds),
         (''completedAt'', TimestampValue (now_completed E)),
         (''error'', NullValue)])"
proof (cases "try_generate B E j dst n w")
  case (Pair r w1)
  show ?thesis
  proof (cases r)
    case (Inl msg)
    with Pair try_generate_Inl_docs[of B E j dst n w msg w1] show ?thesis by simp
  next
    case (Inr u)
    with Pair try_generate_Inr[of B E j dst n w u w1]
    obtain obj fs where o: "itinerarySchema obj" "updatePayload obj (now_completed E) = Inr fs"
        "docs w1 = patch_document (docs w) j fs"
      by blast
    from updatePayload_valid[OF o(1), of "now_completed E"] o(2)
    obtain ds where "fs = [(''status'', StringValue (Str ''completed'')),
         (''itinerary'', ArrayValue ds),
         (''completedAt'', TimestampValue (now_completed E)),
         (''error'', NullValue)]" "list_all day_entry ds"
      by auto
    with Pair Inr o(3) show ?thesis by auto
  qed
qed

lemma generateItinerary_failed_world:
  assumes "try_generate B E j dst n w = (Inl msg, w1)"
  shows "fst (generateItinerary B E j dst n w) = Inr ()"
    and "write_goes_through B (mint_failed E) (patch_failed E) \<Longrightarrow>
         docs (snd (generateItinerary B E j dst n w)) =
           patch_document (docs w) j (errorPayload msg (now_failed E))"
    and "\<not> write_goes_through B (mint_failed E) (patch_failed E) \<Longrightarrow>
         docs (snd (generateItinerary B E j dst n w)) = docs w"
  using generateItinerary_failure[OF assms] report_failure_docs[of B E j msg w1]
    try_generate_Inl_docs[OF assms]
  by simp_all

lemma generateItinerary_docs:
  "docs (snd (generateItinerary B E j dst n w)) = docs w \<or>
   (\<exists>msg. docs (snd (generateItinerary B E j dst n w)) =
       patch_document (docs w) j (errorPayload msg (now_failed E))) \<or>
   (\<exists>ds. list_all day_entry ds \<and>
      docs (snd (generateItinerary B E j dst n w)) = patch_document (docs w) j
        [(''status'', StringValue (Str ''completed'')),
         (''itinerary'', ArrayValue ds),
         (''completedAt'', TimestampValue (now_completed E)),
         (''error'', NullValue)])"
proof -
  from try_generate_cases[of B E j dst n w]
  consider (fail) msg w1 where "try_generate B E j dst n w = (Inl msg, w1)" "docs w1 = docs w"
    | (ok) w1 ds where "try_generate B E j dst n w = (Inr (), w1)" "list_all day_entry ds"
      "docs w1 = patch_document (docs w) j
        [(''status'', StringValue (Str ''completed'')),
         (''itinerary'', ArrayValue ds),
         (''completedAt'', TimestampValue (now_completed E)),
         (''error'', NullValue)]"
    by blast
  then show ?thesis
  proof cases
    case fail
    have "docs (snd (generateItinerary B E j dst n w)) =
       (if write_goes_through B (mint_failed E) (patch_failed E)
        then patch_document (docs w) j (errorPayload msg (now_failed E)) else docs w)"
      using generateItinerary_failure[OF fail(1)] report_failure_docs[of B E j msg w1] fail(2)
      by simp
    then show ?thesis by (cases "write_goes_through B (mint_failed E) (patch_failed E)") auto
  next
    case ok
    from generateItinerary_success[OF ok(1)] ok(2,3) show ?thesis by auto
  qed
qed

section \<open>The calls and writes of a run\<close>

lemma try_generate_calls:
  "completion_calls (trace (snd (try_generate B E j dst n w))) =
     completion_calls (trace w) @ [ChatCompletion ''gpt-4o'' dst n]"
  by (auto simp: try_generate_def Let_def emit_def completion_calls_def
        dest!: mint_events(1)[unfolded completion_calls_def]
        split: provider_result.splits sum.splits prod.splits fetch_result.splits)

lemma report_failure_calls:
  "completion_calls (trace (snd (report_failure B E j msg w))) = completion_calls (trace w)"
  by (auto simp: report_failure_def Let_def emit_def completion_calls_def
        dest!: mint_events(1)[unfolded completion_calls_def]
        split: sum.splits prod.splits fetch_result.splits)

lemma generateItinerary_single_call:
  "completion_calls (trace (snd (generateItinerary B E j dst n w))) =
     completion_calls (trace w) @ [ChatCompletion ''gpt-4o'' dst n]"
proof (cases "try_generate B E j dst n w")
  case (Pair r w1)
  then have t: "completion_calls (trace w1) =
      completion_calls (trace w) @ [ChatCompletion ''gpt-4o'' dst n]"
    using try_generate_calls[of B E j dst n w] by simp
  show ?thesis
  proof (cases r)
    case (Inl msg)
    with Pair generateItinerary_failure[of B E j dst n w msg w1] t
      report_failure_calls[of B E j msg w1]
    show ?thesis by simp
  next
    case (Inr u)
    with Pair generateItinerary_success[of B E j dst n w u w1] t show ?thesis by simp
  qed
qed

lemma try_generate_patches:
  "\<exists>ps. patches (trace (snd (try_generate B E j dst n w))) = patches (trace w) @ ps \<and>
        list_all (terminal_patch j) ps"
  by (auto simp: try_generate_def Let_def emit_def patches_def terminal_patch_def
        dest!: mint_events(2)[unfolded patches_def] dest: updatePayload_keys
        split: provider_result.splits sum.splits prod.splits fetch_result.splits)

lemma report_failure_patches:
  "\<exists>ps. patches (trace (snd (report_failure B E j msg w))) = patches (trace w) @ ps \<and>
        list_all (terminal_patch j) ps"
  using errorPayload_keys[of msg "now_failed E"]
  by (auto simp: report_failure_def Let_def emit_def patches_def terminal_patch_def
        dest!: mint_events(2)[unfolded patches_def]
        split: sum.splits prod.splits fetch_result.splits)

lemma generateItinerary_patches:
  "\<exists>ps. patches (trace (snd (generateItinerary B E j dst n w))) = patches (trace w) @ ps \<and>
        list_all (terminal_patch j) ps"
proof (cases "try_generate B E j dst n w")
  case (Pair r w1)
  from try_generate_patches[of B E j dst n w] Pair
  obtain ps where ps: "patches (trace w1) = patches (trace w) @ ps" "list_all (terminal_patch j) ps"
    by auto
  show ?thesis
  proof (cases r)
    case (Inl msg)
    from report_failure_patches[of B E j msg w1]
    obtain qs where qs: "patches (trace (snd (report_failure B E j msg w1))) = patches (trace w1) @ qs"
        "list_all (terminal_patch j) qs"
      by auto
    have "snd (generateItinerary B E j dst n w) = snd (report_failure B E j msg w1)"
      using Pair Inl generateItinerary_failure[of B E j dst n w msg w1] by simp
    with ps qs have "patches (trace (snd (generateItinerary B E j dst n w))) =
        patches (trace w) @ (ps @ qs)"
      and "list_all (terminal_patch j) (ps @ qs)"
      by simp_all
    then show ?thesis by blast
  next
    case (Inr u)
    with Pair generateItinerary_success[of B E j dst n w u w1] ps show ?thesis by auto
  qed
qed

section \<open>Documents after a write\<close>

lemma patch_document_other:
  "j' \<noteq> j \<Longrightarrow> patch_document S j fs j' = S j'"
  by (simp add: patch_document_def)

lemma patch_document_same:
  "patch_document S j fs j = Some ((case S j of None \<Rightarrow> Map.empty | Some d \<Rightarrow> d) ++ map_of fs)"
  by (simp add: patch_document_def split: option.splits)

lemma job_doc_patch_error:
  "job_doc (w\<lparr>docs := patch_document (docs w) j (errorPayload msg t)\<rparr>) j =
     (job_doc w j)(''status'' \<mapsto> StringValue (Str ''failed''),
                   ''completedAt'' \<mapsto> TimestampValue t,
                   ''error'' \<mapsto> StringValue (Str msg))"
  by (auto simp: job_doc_def patch_document_def errorPayload_def map_add_def split: option.splits)

lemma job_doc_cong: "docs w = docs w' \<Longrightarrow> job_doc w = job_doc w'"
  by (simp add: job_doc_def fun_eq_iff)

lemma failed_doc:
  assumes "docs w' = patch_document (docs w) j (errorPayload msg t)"
  shows "failed_with (job_doc w' j) msg"
    and "job_doc w' j ''completedAt'' = Some (TimestampValue t)"
    and "job_doc w' j ''itinerary'' = job_doc w j ''itinerary''"
proof -
  have e: "job_doc w' = job_doc (w\<lparr>docs := patch_document (docs w) j (errorPayload msg t)\<rparr>)"
    using assms by (intro job_doc_cong) simp
  show "failed_with (job_doc w' j) msg"
    and "job_doc w' j ''completedAt'' = Some (TimestampValue t)"
    and "job_doc w' j ''itinerary'' = job_doc w j ''itinerary''"
    unfolding e by (simp_all add: job_doc_patch_error failed_with_def has_status_def)
qed

lemma run_fails_withI:
  assumes "try_generate B E j dst n w = (Inl msg, w1)"
  shows "run_fails_with B E w (snd (generateItinerary B E j dst n w)) j msg"
  using generateItinerary_failed_world(2,3)[OF assms]
    failed_doc(1,3)[of "snd (generateItinerary B E j dst n w)" w j msg "now_failed E"]
  by (auto simp: run_fails_with_def)

lemma not_completed_after_failure:
  assumes "try_generate B E j dst n w = (Inl msg, w1)"
    and "\<not> has_status (job_doc w j) ''completed''"
  shows "\<not> has_status (job_doc (snd (generateItinerary B E j dst n w)) j) ''completed''"
proof (cases "write_goes_through B (mint_failed E) (patch_failed E)")
  case True
  from failed_doc(1)[OF generateItinerary_failed_world(2)[OF assms(1) True]]
  show ?thesis by (simp add: failed_with_def has_status_def)
next
  case False
  from generateItinerary_failed_world(3)[OF assms(1) False] assms(2)
  show ?thesis by (simp add: job_doc_def)
qed

section \<open>The invariant of job documents\<close>

lemma fetch_POST_docs:
  "(fst (snd (fetch_POST B PE w)) = None \<and> docs (snd (snd (fetch_POST B PE w))) = docs w) \<or>
   (\<exists>dst n. fst (snd (fetch_POST B PE w)) = Some (randomUUID PE, dst, n) \<and>
      docs (snd (snd (fetch_POST B PE w))) =
        patch_document (docs w) (randomUUID PE) (createPayload dst n (now_created PE)))"
  by (auto simp: fetch_POST_def Let_def emit_def fetch_patch_def
        split: sum.splits prod.splits fetch_result.splits)

lemma created_fields_invariant:
  "job_invariant (d ++ map_of (createPayload dst n t))"
  by (simp add: job_invariant_def itinerary_nonempty_def error_nonnull_def has_status_def
        createPayload_def)

lemma failed_fields_invariant:
  "job_invariant (d ++ map_of (createPayload dst n t) ++ map_of (errorPayload msg t'))"
  by (simp add: job_invariant_def itinerary_nonempty_def error_nonnull_def has_status_def
        createPayload_def errorPayload_def)

lemma completed_fields_invariant:
  "job_invariant (d ++ map_of [(''status'', StringValue (Str ''completed'')),
         (''itinerary'', ArrayValue ds),
         (''completedAt'', TimestampValue t),
         (''error'', NullValue)])"
  by (simp add: job_invariant_def itinerary_nonempty_def error_nonnull_def has_status_def)

lemma created_invariant:
  "\<exists>d. patch_document S j (createPayload dst n t) j = Some d \<and> job_invariant d"
  unfolding patch_document_same using created_fields_invariant by blast

lemma created_failed_invariant:
  "\<exists>d. patch_document (patch_document S j (createPayload dst n t)) j (errorPayload msg t') j = Some d \<and>
       job_invariant d"
  unfolding patch_document_same option.case using failed_fields_invariant by blast

lemma completed_invariant:
  "\<exists>d. patch_document S j [(''status'', StringValue (Str ''completed'')),
         (''itinerary'', ArrayValue ds),
         (''completedAt'', TimestampValue t),
         (''error'', NullValue)] j = Some d \<and> job_invariant d"
  unfolding patch_document_same using completed_fields_invariant by blast

lemma submit_and_run_invariant:
  assumes "all_docs job_invariant w"
  shows "all_docs job_invariant (snd (submit_and_run B PE RE w))"
proof -
  let ?j = "randomUUID PE"
  have "(fst (snd (fetch_POST B PE w)) = None \<and> docs (snd (snd (fetch_POST B PE w))) = docs w) \<or>
     (\<exists>dst n. fst (snd (fetch_POST B PE w)) = Some (?j, dst, n) \<and>
        docs (snd (snd (fetch_POST B PE w))) =
          patch_document (docs w) ?j (createPayload dst n (now_created PE)))"
    by (rule fetch_POST_docs)
  then consider (none) "fst (snd (fetch_POST B PE w)) = None"
      "docs (snd (snd (fetch_POST B PE w))) = docs w"
    | (some) dst n where "fst (snd (fetch_POST B PE w)) = Some (?j, dst, n)"
        "docs (snd (snd (fetch_POST B PE w))) =
           patch_document (docs w) ?j (createPayload dst n (now_created PE))"
    by (elim disjE exE conjE) blast+
  then show ?thesis
  proof cases
    case none
    then have "docs (snd (submit_and_run B PE RE w)) = docs w"
      by (cases "fetch_POST B PE w") (auto simp: submit_and_run_def)
    with assms show ?thesis by (simp add: all_docs_def)
  next
    case some
    obtain r w1 where f: "fetch_POST B PE w = (r, Some (?j, dst, n), w1)"
      using some(1) by (cases "fetch_POST B PE w") auto
    with some(2) have w1: "docs w1 = patch_document (docs w) ?j (createPayload dst n (now_created PE))"
      by simp
    let ?w2 = "snd (generateItinerary B RE ?j dst n w1)"
    have s: "snd (submit_and_run B PE RE w) = ?w2"
      using f by (simp add: submit_and_run_def)
    have other: "\<And>j'. j' \<noteq> ?j \<Longrightarrow> docs ?w2 j' = docs w j'"
      using generateItinerary_docs[of B RE ?j dst n w1] w1
      by (auto simp: patch_document_other)
    have same: "\<exists>d. docs ?w2 ?j = Some d \<and> job_invariant d"
      using generateItinerary_docs[of B RE ?j dst n w1]
    proof (elim disjE exE conjE)
      assume "docs ?w2 = docs w1"
      then show ?thesis using w1 created_invariant[of "docs w" ?j dst n "now_created PE"] by simp
    next
      fix msg
      assume "docs ?w2 = patch_document (docs w1) ?j (errorPayload msg (now_failed RE))"
      then show ?thesis
        using w1 created_failed_invariant[of "docs w" ?j dst n "now_created PE" msg "now_failed RE"]
        by simp
    next
      fix ds
      assume "docs ?w2 = patch_document (docs w1) ?j
        [(''status'', StringValue (Str ''completed'')),
         (''itinerary'', ArrayValue ds),
         (''completedAt'', TimestampValue (now_completed RE)),
         (''error'', NullValue)]"
      then show ?thesis
        using completed_invariant[of "docs w1" ?j ds "now_completed RE"] by simp
    qed
    show ?thesis
      unfolding s all_docs_def
    proof (intro allI impI)
      fix j' d assume a: "docs ?w2 j' = Some d"
      show "job_invariant d"
      proof (cases "j' = ?j")
        case True
        with a same show ?thesis by auto
      next
        case False
        with a other assms show ?thesis by (auto simp: all_docs_def)
      qed
    qed
  qed
qed

section \<open>The claims\<close>

text \<open>
  C2. The specification describes the document of a successful run as completed, with as
  many days as were requested and, in each day, the three times of the enumeration in some
  order. The schema bounds neither the number of days nor the distinctness of the times:
  a request for two days answered by one day of three morning activities ends completed.
\<close>

theorem C2_counterexample:
  "has_status (job_doc (lifecycle (always (answer (Some three_mornings_text)))) ''job-1'')
     ''completed'' \<and>
   length (itinerary_days (job_doc (lifecycle (always (answer (Some three_mornings_text))))
     ''job-1'')) = 1 \<and>
   \<not> list_all day_all_slots
       (itinerary_days (job_doc (lifecycle (always (answer (Some three_mornings_text)))) ''job-1'')) \<and>
   \<not> completed_as_specified
       (job_doc (lifecycle (always (answer (Some three_mornings_text)))) ''job-1'')
       (Number (Finite 2))"
  by (simp add: sample_defs model_defs doc_defs)

text \<open>
  C2, as amended. When the \<^verbatim>\<open>try\<close> block of a run ends without an error, the document
  of the job is completed, its error is null, and each day of its itinerary carries
  exactly three activities whose times belong to the enumeration.
\<close>

theorem C2_completed_document:
  assumes "fst (try_generate B E jobId destination durationDays w) = Inr u"
  shows "completed_document
           (job_doc (snd (generateItinerary B E jobId destination durationDays w)) jobId)"
proof -
  obtain w1 where w1: "try_generate B E jobId destination durationDays w = (Inr u, w1)"
    using assms by (cases "try_generate B E jobId destination durationDays w") auto
  from try_generate_cases[of B E jobId destination durationDays w] w1
  obtain ds where ds: "list_all day_entry ds"
     "docs w1 = patch_document (docs w) jobId
        [(''status'', StringValue (Str ''completed'')),
         (''itinerary'', ArrayValue ds),
         (''completedAt'', TimestampValue (now_completed E)),
         (''error'', NullValue)]"
    by auto
  have "snd (generateItinerary B E jobId destination durationDays w) = w1"
    using generateItinerary_success[OF w1] by simp
  with ds show ?thesis
    by (simp add: completed_document_def has_status_def job_doc_def patch_document_same)
qed

theorem C2_completed_document_witness:
  "fst (try_generate sample_builtins three_mornings_run ''job-1'' (Str ''Rome'')
          (Number (Finite 2)) created_world) = Inr () \<and>
   completed_document (job_doc (run_created three_mornings_run) ''job-1'')"
proof -
  have h: "fst (try_generate sample_builtins three_mornings_run ''job-1'' (Str ''Rome'')
          (Number (Finite 2)) created_world) = Inr ()"
    by (simp add: sample_defs model_defs)
  from h C2_completed_document[OF h] show ?thesis by (simp add: run_created_def)
qed

text \<open>
  C3. The specification states that the itinerary of a job is non-empty exactly when the
  job is completed. The schema accepts an empty itinerary array, so a job can be completed
  with an empty itinerary.
\<close>

theorem C3_counterexample:
  "has_status (job_doc (lifecycle (always (answer (Some no_days_text)))) ''job-1'') ''completed'' \<and>
   \<not> itinerary_nonempty (job_doc (lifecycle (always (answer (Some no_days_text)))) ''job-1'') \<and>
   \<not> invariant_as_specified (job_doc (lifecycle (always (answer (Some no_days_text)))) ''job-1'')"
  by (simp add: sample_defs model_defs doc_defs)

text \<open>
  C3, as amended. In every document of a store reached by serving requests, each with
  the run it starts, the itinerary is non-empty only if the status is completed, and the
  error is non-null exactly when the status is failed.
\<close>

theorem C3_job_invariant:
  assumes "all_docs job_invariant w"
  shows "all_docs job_invariant (serve B rs w)"
  using assms
proof (induction rs arbitrary: w)
  case Nil
  then show ?case by simp
next
  case (Cons a rs)
  obtain PE RE where a: "a = (PE, RE)" by (cases a)
  from Cons.prems have "all_docs job_invariant (snd (submit_and_run B PE RE w))"
    by (rule submit_and_run_invariant)
  then show ?case using Cons.IH a by simp
qed

theorem C3_job_invariant_witness:
  "all_docs job_invariant empty_world \<and>
   has_status (job_doc (serve sample_builtins [(sample_post rome_two_days, no_days_run)] empty_world)
     ''job-1'') ''completed'' \<and>
   all_docs job_invariant
     (serve sample_builtins [(sample_post rome_two_days, no_days_run)] empty_world)"
proof -
  have h: "all_docs job_invariant empty_world"
    by (simp add: all_docs_def empty_world_def)
  have s: "has_status (job_doc (serve sample_builtins [(sample_post rome_two_days, no_days_run)]
      empty_world) ''job-1'') ''completed''"
    by (simp add: sample_defs model_defs doc_defs)
  from h s C3_job_invariant[OF h, of sample_builtins "[(sample_post rome_two_days, no_days_run)]"]
  show ?thesis by blast
qed

text \<open>
  C4. The answer of the provider is parsed first and validated second. A text that does
  not parse makes the run fail with the message of malformed output, a parsed value that
  the schema rejects makes it fail with the message of a schema violation: the document
  is then failed with that message and its itinerary is as it was (empty, after the
  creation), the failure write being the best-effort write of C7. A document that was
  not completed before the run is completed after it only if the text parsed and the
  schema accepted the value.
\<close>

theorem C4_parse_then_validate:
  assumes "provider E 0 = ProviderReturns c"
  shows
    "(\<forall>m. JSON_parse B (completion_text c) = Inl m \<longrightarrow>
        run_fails_with B E w (snd (generateItinerary B E jobId destination durationDays w)) jobId
          (''Invalid JSON returned by OpenAI: '' @ m)) \<and>
     (\<forall>obj. JSON_parse B (completion_text c) = Inr obj \<and> \<not> itinerarySchema obj \<longrightarrow>
        run_fails_with B E w (snd (generateItinerary B E jobId destination durationDays w)) jobId
          (''Invalid itinerary structure: '' @ zod_message B obj)) \<and>
     (\<not> has_status (job_doc w jobId) ''completed'' \<and>
      has_status (job_doc (snd (generateItinerary B E jobId destination durationDays w)) jobId)
        ''completed'' \<longrightarrow>
        (\<exists>obj. JSON_parse B (completion_text c) = Inr obj \<and> itinerarySchema obj))"
proof (intro conjI allI impI)
  fix m assume "JSON_parse B (completion_text c) = Inl m"
  from run_fails_withI[OF try_generate_parse_error[OF assms this]]
  show "run_fails_with B E w (snd (generateItinerary B E jobId destination durationDays w)) jobId
          (''Invalid JSON returned by OpenAI: '' @ m)" .
next
  fix obj assume "JSON_parse B (completion_text c) = Inr obj \<and> \<not> itinerarySchema obj"
  then have p: "JSON_parse B (completion_text c) = Inr obj" and s: "\<not> itinerarySchema obj" by auto
  from run_fails_withI[OF try_generate_schema_error[OF assms p s]]
  show "run_fails_with B E w (snd (generateItinerary B E jobId destination durationDays w)) jobId
          (''Invalid itinerary structure: '' @ zod_message B obj)" .
next
  assume a: "\<not> has_status (job_doc w jobId) ''completed'' \<and>
      has_status (job_doc (snd (generateItinerary B E jobId destination durationDays w)) jobId)
        ''completed''"
  obtain r w1 where t: "try_generate B E jobId destination durationDays w = (r, w1)"
    by (cases "try_generate B E jobId destination durationDays w")
  show "\<exists>obj. JSON_parse B (completion_text c) = Inr obj \<and> itinerarySchema obj"
  proof (cases r)
    case (Inl msg)
    with t a not_completed_after_failure[of B E jobId destination durationDays w msg w1]
    show ?thesis by simp
  next
    case (Inr u)
    with t try_generate_Inr[of B E jobId destination durationDays w u w1] assms
    show ?thesis by auto
  qed
qed

theorem C4_parse_then_validate_witness:
  "failed_with (job_doc (run_created prose_run) ''job-1'')
     ''Invalid JSON returned by OpenAI: Unexpected token'' \<and>
   job_doc (run_created prose_run) ''job-1'' ''itinerary'' = Some (ArrayValue []) \<and>
   failed_with (job_doc (run_created empty_object_run) ''job-1'')
     ''Invalid itinerary structure: Required'' \<and>
   has_status (job_doc (run_created three_mornings_run) ''job-1'') ''completed'' \<and>
   (\<exists>obj. sample_parse three_mornings_text = Inr obj \<and> itinerarySchema obj)"
proof -
  note C4 = C4_parse_then_validate[where B = sample_builtins and w = created_world
      and jobId = "''job-1''" and destination = "Str ''Rome''" and durationDays = "Number (Finite 2)"]
  have p0: "provider prose_run 0 =
      ProviderReturns \<lparr>choices = Some [\<lparr>message = Some \<lparr>content = Some ''Sorry, I cannot help''\<rparr>\<rparr>]\<rparr>"
    and p1: "provider empty_object_run 0 =
      ProviderReturns \<lparr>choices = Some [\<lparr>message = Some \<lparr>content = Some ''{}''\<rparr>\<rparr>]\<rparr>"
    and p2: "provider three_mornings_run 0 =
      ProviderReturns \<lparr>choices = Some [\<lparr>message = Some \<lparr>content = Some three_mornings_text\<rparr>\<rparr>]\<rparr>"
    by (simp_all add: prose_run_def empty_object_run_def three_mornings_run_def sample_run_def
          always_def answer_def)
  have t0: "JSON_parse sample_builtins
      (completion_text \<lparr>choices = Some [\<lparr>message = Some \<lparr>content = Some ''Sorry, I cannot help''\<rparr>\<rparr>]\<rparr>) =
      Inl ''Unexpected token''"
    by (simp add: sample_defs completion_text_def content_of_def)
  have t1: "JSON_parse sample_builtins
      (completion_text \<lparr>choices = Some [\<lparr>message = Some \<lparr>content = Some ''{}''\<rparr>\<rparr>]\<rparr>) = Inr (Obj []) \<and>
      \<not> itinerarySchema (Obj [])"
    by (simp add: sample_defs completion_text_def content_of_def itinerarySchema_def
          string_min1_def obj_get_def)
  have z: "zod_message sample_builtins (Obj []) = ''Required''"
    by (simp add: sample_builtins_def)
  have g0: "write_goes_through sample_builtins (mint_failed prose_run) (patch_failed prose_run)"
    and g1: "write_goes_through sample_builtins (mint_failed empty_object_run)
               (patch_failed empty_object_run)"
    by (simp_all add: sample_defs model_defs doc_defs)
  have a: "\<not> has_status (job_doc created_world ''job-1'') ''completed''"
    by (simp add: sample_defs model_defs doc_defs)
  have b: "has_status (job_doc (run_created three_mornings_run) ''job-1'') ''completed''"
    by (simp add: sample_defs model_defs doc_defs)
  have e: "job_doc created_world ''job-1'' ''itinerary'' = Some (ArrayValue [])"
    by (simp add: sample_defs model_defs doc_defs)
  from C4[OF p0] t0
  have "run_fails_with sample_builtins prose_run created_world (run_created prose_run) ''job-1''
      ''Invalid JSON returned by OpenAI: Unexpected token''"
    by (simp add: run_created_def)
  with g0 e have r0: "failed_with (job_doc (run_created prose_run) ''job-1'')
       ''Invalid JSON returned by OpenAI: Unexpected token'' \<and>
     job_doc (run_created prose_run) ''job-1'' ''itinerary'' = Some (ArrayValue [])"
    by (simp add: run_fails_with_def)
  from C4[OF p1] t1 z
  have "run_fails_with sample_builtins empty_object_run created_world
      (run_created empty_object_run) ''job-1'' ''Invalid itinerary structure: Required''"
    by (simp add: run_created_def)
  with g1 have r1: "failed_with (job_doc (run_created empty_object_run) ''job-1'')
       ''Invalid itinerary structure: Required''"
    by (simp add: run_fails_with_def)
  from C4[OF p2] a b
  have r2: "\<exists>obj. sample_parse three_mornings_text = Inr obj \<and> itinerarySchema obj"
    by (simp add: run_created_def sample_builtins_def completion_text_def content_of_def)
  from r0 r1 r2 b show ?thesis by blast
qed

text \<open>
  C5. The specification accepts a request only when \<^verbatim>\<open>durationDays\<close> is an integer that
  is at least 1, and the handler's own error text says so. The guard tests the type, NaN
  and \<^verbatim>\<open>< 1\<close> only: a request for one and a half days passes it, the job document is
  written with that number and the answer is 202.
\<close>

theorem C5_fractional_days_accepted:
  "\<not> invalid_input (Str ''Paris'') (Number (Finite (3 / 2))) \<and>
   resp_status (fst (fetch_POST sample_builtins (sample_post paris_fractional) empty_world)) = 202 \<and>
   job_doc (snd (snd (fetch_POST sample_builtins (sample_post paris_fractional) empty_world)))
     ''job-1'' ''durationDays'' = Some (IntegerValue (Number (Finite (3 / 2))))"
  by (simp add: sample_defs model_defs doc_defs)

text \<open>
  C6. For a request that passes the guard, the handler mints a token and writes the
  initial document (status processing, no completion time, empty itinerary, no error)
  before it hands the background run to \<^verbatim>\<open>waitUntil\<close> and before it answers 202 with the
  job id. When the initial write does not go through, the answer is 500, no background run
  is handed over and the store is as it was.
\<close>

theorem C6_create_before_schedule:
  assumes "request_json PE = Inr payload"
    and "destination = own (or_empty payload) ''destination''"
    and "durationDays = own (or_empty payload) ''durationDays''"
    and "\<not> invalid_input destination durationDays"
  shows
    "(write_goes_through B (mint_create PE) (patch_create PE) \<longrightarrow>
        fetch_POST B PE w =
          (\<lparr>resp_status = 202, resp_body = Obj [(''jobId'', Str (randomUUID PE))]\<rparr>,
           Some (randomUUID PE, destination, durationDays),
           \<lparr>docs = patch_document (docs w) (randomUUID PE)
                     (createPayload destination durationDays (now_created PE)),
            trace = trace w @ fst (getFirebaseAuthToken B (mint_create PE)) @
                    [Patch (randomUUID PE) (createPayload destination durationDays (now_created PE)),
                     WaitUntil (randomUUID PE) destination durationDays,
                     Respond 202]\<rparr>)) \<and>
     createPayload destination durationDays (now_created PE) =
       [(''status'', StringValue (Str ''processing'')),
        (''destination'', StringValue destination),
        (''durationDays'', IntegerValue durationDays),
        (''createdAt'', TimestampValue (now_created PE)),
        (''completedAt'', NullValue),
        (''itinerary'', ArrayValue []),
        (''error'', NullValue)] \<and>
     (\<not> write_goes_through B (mint_create PE) (patch_create PE) \<longrightarrow>
        resp_status (fst (fetch_POST B PE w)) = 500 \<and>
        fst (snd (fetch_POST B PE w)) = None \<and>
        docs (snd (snd (fetch_POST B PE w))) = docs w \<and>
        scheduled (trace (snd (snd (fetch_POST B PE w)))) = scheduled (trace w))"
proof (intro conjI impI)
  assume "write_goes_through B (mint_create PE) (patch_create PE)"
  then show "fetch_POST B PE w =
          (\<lparr>resp_status = 202, resp_body = Obj [(''jobId'', Str (randomUUID PE))]\<rparr>,
           Some (randomUUID PE, destination, durationDays),
           \<lparr>docs = patch_document (docs w) (randomUUID PE)
                     (createPayload destination durationDays (now_created PE)),
            trace = trace w @ fst (getFirebaseAuthToken B (mint_create PE)) @
                    [Patch (randomUUID PE) (createPayload destination durationDays (now_created PE)),
                     WaitUntil (randomUUID PE) destination durationDays,
                     Respond 202]\<rparr>)"
    using assms
    by (auto simp: fetch_POST_def write_goes_through_def Let_def emit_def fetch_patch_def
          split: sum.splits prod.splits fetch_result.splits)
next
  show "createPayload destination durationDays (now_created PE) =
       [(''status'', StringValue (Str ''processing'')),
        (''destination'', StringValue destination),
        (''durationDays'', IntegerValue durationDays),
        (''createdAt'', TimestampValue (now_created PE)),
        (''completedAt'', NullValue),
        (''itinerary'', ArrayValue []),
        (''error'', NullValue)]"
    by (simp add: createPayload_def)
next
  assume n: "\<not> write_goes_through B (mint_create PE) (patch_create PE)"
  then show "resp_status (fst (fetch_POST B PE w)) = 500"
    using assms
    by (auto simp: fetch_POST_def write_goes_through_def Let_def json_error_def
          split: sum.splits prod.splits fetch_result.splits)
  from n show "fst (snd (fetch_POST B PE w)) = None"
    using assms
    by (auto simp: fetch_POST_def write_goes_through_def Let_def
          split: sum.splits prod.splits fetch_result.splits)
  from n show "docs (snd (snd (fetch_POST B PE w))) = docs w"
    using assms
    by (auto simp: fetch_POST_def write_goes_through_def Let_def emit_def fetch_patch_def
          split: sum.splits prod.splits fetch_result.splits)
  from n show "scheduled (trace (snd (snd (fetch_POST B PE w)))) = scheduled (trace w)"
    using assms
    using mint_not_scheduled[of B "mint_create PE"]
    by (auto simp: fetch_POST_def write_goes_through_def Let_def emit_def scheduled_def
          split: sum.splits prod.splits fetch_result.splits)
qed

theorem C6_create_before_schedule_witness:
  "resp_status (fst (fetch_POST sample_builtins (sample_post rome_two_days) empty_world)) = 202 \<and>
   fst (snd (fetch_POST sample_builtins (sample_post rome_two_days) empty_world)) =
     Some (''job-1'', Str ''Rome'', Number (Finite 2)) \<and>
   trace created_world =
     fst (getFirebaseAuthToken sample_builtins sample_mint) @
     [Patch ''job-1'' (createPayload (Str ''Rome'') (Number (Finite 2)) ''2025-01-01T00:00:00.000Z''),
      WaitUntil ''job-1'' (Str ''Rome'') (Number (Finite 2)),
      Respond 202] \<and>
   has_status (job_doc created_world ''job-1'') ''processing'' \<and>
   resp_status (fst (fetch_POST sample_builtins refused_post empty_world)) = 500 \<and>
   fst (snd (fetch_POST sample_builtins refused_post empty_world)) = None \<and>
   docs (snd (snd (fetch_POST sample_builtins refused_post empty_world))) = docs empty_world"
proof -
  have h1: "request_json (sample_post rome_two_days) = Inr rome_two_days"
    and h1': "request_json refused_post = Inr rome_two_days"
    by (simp_all add: sample_post_def refused_post_def)
  have h2: "Str ''Rome'' = own (or_empty rome_two_days) ''destination''"
    and h3: "Number (Finite 2) = own (or_empty rome_two_days) ''durationDays''"
    by (simp_all add: rome_two_days_def own_def or_empty_def obj_get_def)
  have h4: "\<not> invalid_input (Str ''Rome'') (Number (Finite 2))"
    by (simp add: invalid_input_def trim_def is_space_def)
  have g: "write_goes_through sample_builtins (mint_create (sample_post rome_two_days))
             (patch_create (sample_post rome_two_days))"
    and n: "\<not> write_goes_through sample_builtins (mint_create refused_post) (patch_create refused_post)"
    by (simp_all add: sample_defs model_defs doc_defs)
  have v: "randomUUID (sample_post rome_two_days) = ''job-1''"
    "now_created (sample_post rome_two_days) = ''2025-01-01T00:00:00.000Z''"
    "mint_create (sample_post rome_two_days) = sample_mint"
    by (simp_all add: sample_post_def)
  from C6_create_before_schedule[OF h1 h2 h3 h4, of sample_builtins empty_world] g
  have ok: "fetch_POST sample_builtins (sample_post rome_two_days) empty_world =
          (\<lparr>resp_status = 202, resp_body = Obj [(''jobId'', Str ''job-1'')]\<rparr>,
           Some (''job-1'', Str ''Rome'', Number (Finite 2)),
           \<lparr>docs = patch_document (docs empty_world) ''job-1''
                     (createPayload (Str ''Rome'') (Number (Finite 2)) ''2025-01-01T00:00:00.000Z''),
            trace = trace empty_world @ fst (getFirebaseAuthToken sample_builtins sample_mint) @
                    [Patch ''job-1'' (createPayload (Str ''Rome'') (Number (Finite 2))
                       ''2025-01-01T00:00:00.000Z''),
                     WaitUntil ''job-1'' (Str ''Rome'') (Number (Finite 2)),
                     Respond 202]\<rparr>)"
    by (simp add: v)
  from C6_create_before_schedule[OF h1' h2 h3 h4, of sample_builtins empty_world] n
  have no: "resp_status (fst (fetch_POST sample_builtins refused_post empty_world)) = 500 \<and>
        fst (snd (fetch_POST sample_builtins refused_post empty_world)) = None \<and>
        docs (snd (snd (fetch_POST sample_builtins refused_post empty_world))) = docs empty_world"
    by blast
  have p: "has_status (job_doc created_world ''job-1'') ''processing''"
    unfolding created_world_def ok
    by (simp add: job_doc_def has_status_def patch_document_def createPayload_def empty_world_def)
  have t: "trace created_world =
     fst (getFirebaseAuthToken sample_builtins sample_mint) @
     [Patch ''job-1'' (createPayload (Str ''Rome'') (Number (Finite 2)) ''2025-01-01T00:00:00.000Z''),
      WaitUntil ''job-1'' (Str ''Rome'') (Number (Finite 2)),
      Respond 202]"
    unfolding created_world_def ok by (simp add: empty_world_def)
  from ok no p t show ?thesis by simp
qed

text \<open>
  C7. Whatever error the \<^verbatim>\<open>try\<close> block of a run throws (the message of the provider,
  of the parse, of the schema or of the completed write), the run ends without throwing.
  When the minter returns a token, the run sends one write naming status failed, the
  completion time and the message of the error. When that write goes through, the
  document is failed with the message; when it does not, the store is as it was before
  the run, so the document stays in status processing.
\<close>

theorem C7_failure_report:
  assumes "try_generate B E jobId destination durationDays w = (Inl msg, w1)"
  shows "fst (generateItinerary B E jobId destination durationDays w) = Inr () \<and>
     (\<forall>evs token. getFirebaseAuthToken B (mint_failed E) = (evs, Inr token) \<longrightarrow>
        trace (snd (generateItinerary B E jobId destination durationDays w)) =
          trace w1 @ evs @ [Patch jobId (errorPayload msg (now_failed E))]) \<and>
     errorPayload msg (now_failed E) =
       [(''status'', StringValue (Str ''failed'')),
        (''completedAt'', TimestampValue (now_failed E)),
        (''error'', StringValue (Str msg))] \<and>
     (write_goes_through B (mint_failed E) (patch_failed E) \<longrightarrow>
        failed_with (job_doc (snd (generateItinerary B E jobId destination durationDays w)) jobId) msg \<and>
        job_doc (snd (generateItinerary B E jobId destination durationDays w)) jobId ''completedAt'' =
          Some (TimestampValue (now_failed E))) \<and>
     (\<not> write_goes_through B (mint_failed E) (patch_failed E) \<longrightarrow>
        docs (snd (generateItinerary B E jobId destination durationDays w)) = docs w)"
proof -
  let ?w' = "snd (generateItinerary B E jobId destination durationDays w)"
  note g = generateItinerary_failed_world[OF assms]
  have 1: "fst (generateItinerary B E jobId destination durationDays w) = Inr ()" by (rule g(1))
  have 2: "\<forall>evs token. getFirebaseAuthToken B (mint_failed E) = (evs, Inr token) \<longrightarrow>
        trace ?w' = trace w1 @ evs @ [Patch jobId (errorPayload msg (now_failed E))]"
    using generateItinerary_failure[OF assms] report_failure_trace[of B E _ _ jobId msg w1]
    by simp
  have 3: "errorPayload msg (now_failed E) =
       [(''status'', StringValue (Str ''failed'')),
        (''completedAt'', TimestampValue (now_failed E)),
        (''error'', StringValue (Str msg))]"
    by (simp add: errorPayload_def)
  have 4: "write_goes_through B (mint_failed E) (patch_failed E) \<longrightarrow>
        failed_with (job_doc ?w' jobId) msg \<and>
        job_doc ?w' jobId ''completedAt'' = Some (TimestampValue (now_failed E))"
    using g(2) failed_doc(1,2)[of ?w' w jobId msg "now_failed E"] by blast
  have 5: "\<not> write_goes_through B (mint_failed E) (patch_failed E) \<longrightarrow> docs ?w' = docs w"
    using g(3) by blast
  from 1 2 3 4 5 show ?thesis by blast
qed

theorem C7_failure_report_witness:
  "fst (generateItinerary sample_builtins prose_run ''job-1'' (Str ''Rome'') (Number (Finite 2))
          created_world) = Inr () \<and>
   failed_with (job_doc (run_created prose_run) ''job-1'')
     ''Invalid JSON returned by OpenAI: Unexpected token'' \<and>
   job_doc (run_created prose_run) ''job-1'' ''completedAt'' =
     Some (TimestampValue ''2025-01-01T00:00:06.000Z'') \<and>
   fst (generateItinerary sample_builtins prose_run_unreported ''job-1'' (Str ''Rome'')
          (Number (Finite 2)) created_world) = Inr () \<and>
   has_status (job_doc (run_created prose_run_unreported) ''job-1'') ''processing''"
proof -
  have h: "try_generate sample_builtins prose_run ''job-1'' (Str ''Rome'') (Number (Finite 2))
      created_world =
    (Inl ''Invalid JSON returned by OpenAI: Unexpected token'',
     emit [ChatCompletion ''gpt-4o'' (Str ''Rome'') (Number (Finite 2))] created_world)"
    and h': "try_generate sample_builtins prose_run_unreported ''job-1'' (Str ''Rome'')
      (Number (Finite 2)) created_world =
    (Inl ''Invalid JSON returned by OpenAI: Unexpected token'',
     emit [ChatCompletion ''gpt-4o'' (Str ''Rome'') (Number (Finite 2))] created_world)"
    by (simp_all add: prose_run_def prose_run_unreported_def sample_run_def always_def answer_def
          sample_builtins_def sample_parse_def token_text_def no_days_text_def
          three_mornings_text_def try_generate_def completion_text_def content_of_def Let_def)
  have g: "write_goes_through sample_builtins (mint_failed prose_run) (patch_failed prose_run)"
    and n: "\<not> write_goes_through sample_builtins (mint_failed prose_run_unreported)
               (patch_failed prose_run_unreported)"
    by (simp_all add: sample_defs model_defs doc_defs)
  have t: "now_failed prose_run = ''2025-01-01T00:00:06.000Z''"
    by (simp add: prose_run_def sample_run_def)
  have p: "has_status (job_doc created_world ''job-1'') ''processing''"
    by (simp add: sample_defs model_defs doc_defs)
  from C7_failure_report[OF h] g t
  have a: "fst (generateItinerary sample_builtins prose_run ''job-1'' (Str ''Rome'')
        (Number (Finite 2)) created_world) = Inr () \<and>
      failed_with (job_doc (run_created prose_run) ''job-1'')
        ''Invalid JSON returned by OpenAI: Unexpected token'' \<and>
      job_doc (run_created prose_run) ''job-1'' ''completedAt'' =
        Some (TimestampValue ''2025-01-01T00:00:06.000Z'')"
    by (simp add: run_created_def)
  from C7_failure_report[OF h'] n
  have "fst (generateItinerary sample_builtins prose_run_unreported ''job-1'' (Str ''Rome'')
        (Number (Finite 2)) created_world) = Inr () \<and>
      docs (run_created prose_run_unreported) = docs created_world"
    by (simp add: run_created_def)
  with p have b: "fst (generateItinerary sample_builtins prose_run_unreported ''job-1'' (Str ''Rome'')
        (Number (Finite 2)) created_world) = Inr () \<and>
      has_status (job_doc (run_created prose_run_unreported) ''job-1'') ''processing''"
    by (simp add: job_doc_def)
  from a b show ?thesis by blast
qed



text \<open>
  C10. When the content of the answer is missing or null at any level, the text handed to
  the parser is \<^verbatim>\<open>{}\<close>. The parser returns the empty object for it, the schema rejects the
  empty object, and the run fails with the message of a schema violation, never with the
  message of malformed output.
\<close>

theorem C10_missing_content:
  assumes "provider E 0 = ProviderReturns c"
    and "content_of c = None"
    and "JSON_parse B ''{}'' = Inr (Obj [])"
  shows "completion_text c = ''{}'' \<and>
     fst (try_generate B E jobId destination durationDays w) =
       Inl (''Invalid itinerary structure: '' @ zod_message B (Obj [])) \<and>
     run_fails_with B E w (snd (generateItinerary B E jobId destination durationDays w)) jobId
       (''Invalid itinerary structure: '' @ zod_message B (Obj []))"
proof -
  have t: "completion_text c = ''{}''"
    using assms(2) by (simp add: completion_text_def)
  have s: "\<not> itinerarySchema (Obj [])"
    by (simp add: itinerarySchema_def string_min1_def obj_get_def)
  from assms(3) t have p: "JSON_parse B (completion_text c) = Inr (Obj [])" by simp
  note e = try_generate_schema_error[OF assms(1) p s, of jobId destination durationDays w]
  from t e run_fails_withI[OF e] show ?thesis by simp
qed

theorem C10_missing_content_witness:
  "content_of \<lparr>choices = Some [\<lparr>message = Some \<lparr>content = None\<rparr>\<rparr>]\<rparr> = None \<and>
   JSON_parse sample_builtins ''{}'' = Inr (Obj []) \<and>
   fst (try_generate sample_builtins no_content_run ''job-1'' (Str ''Rome'') (Number (Finite 2))
          created_world) = Inl ''Invalid itinerary structure: Required'' \<and>
   failed_with (job_doc (run_created no_content_run) ''job-1'')
     ''Invalid itinerary structure: Required''"
proof -
  have p: "provider no_content_run 0 =
      ProviderReturns \<lparr>choices = Some [\<lparr>message = Some \<lparr>content = None\<rparr>\<rparr>]\<rparr>"
    by (simp add: no_content_run_def sample_run_def always_def answer_def)
  have c: "content_of \<lparr>choices = Some [\<lparr>message = Some \<lparr>content = None\<rparr>\<rparr>]\<rparr> = None"
    by (simp add: content_of_def)
  have j: "JSON_parse sample_builtins ''{}'' = Inr (Obj [])"
    by (simp add: sample_builtins_def sample_parse_def)
  have z: "zod_message sample_builtins (Obj []) = ''Required''"
    by (simp add: sample_builtins_def)
  have g: "write_goes_through sample_builtins (mint_failed no_content_run)
             (patch_failed no_content_run)"
    by (simp add: sample_defs model_defs doc_defs)
  from C10_missing_content[OF p c j, where jobId = "''job-1''" and destination = "Str ''Rome''"
      and durationDays = "Number (Finite 2)" and w = created_world] z
  have "fst (try_generate sample_builtins no_content_run ''job-1'' (Str ''Rome'')
          (Number (Finite 2)) created_world) = Inl ''Invalid itinerary structure: Required'' \<and>
     run_fails_with sample_builtins no_content_run created_world (run_created no_content_run)
       ''job-1'' ''Invalid itinerary structure: Required''"
    by (simp add: run_created_def)
  with g c j show ?thesis by (simp add: run_fails_with_def)
qed

end
